theory Spec2Isabelle
  imports Complex_Main "HOL-Library.Log_Nat"
begin

section \<open>Trade Tracker: the script \<^verbatim>\<open>app.py\<close>\<close>

text \<open>
  The script is one Streamlit page that is run from top to bottom at every interaction.
  Its first tab reads the trades from widgets (pre-filled from a loaded snapshot), computes
  the per-trade figures and the portfolio totals and offers to save or load a snapshot;
  its second tab shows tables and charts, for all trades or split by colour.

  Numbers. The prices, fees and derived figures are Python floats. The first sections
  model them as exact rationals: they give the formulas the script evaluates, in exact
  arithmetic. The section on floating point gives the same lines with the result of every
  operation rounded to a double; what depends on the rounding is stated there. Trade
  indices and list lengths are natural numbers.
\<close>

subsection \<open>Values and errors\<close>

text \<open>
  What \<^verbatim>\<open>json.load\<close> returns: \<^verbatim>\<open>None\<close>, a bool, an int, a float, a str, a list, or a
  dict. A dict is an association list read with \<open>map_of\<close>.
\<close>

datatype json =
    JNull
  | JBool bool
  | JInt int
  | JFloat rat
  | JStr string
  | JArr "json list"
  | JObj "(string \<times> json) list"

text \<open>The exceptions the script can meet.\<close>

datatype py_error =
    JSONDecodeError
  | KeyError
  | TypeError
  | ValueError
  | StreamlitAPIException

definition err_bind :: "py_error + 'a \<Rightarrow> ('a \<Rightarrow> py_error + 'b) \<Rightarrow> py_error + 'b" where
  "err_bind m f = (case m of Inl e \<Rightarrow> Inl e | Inr x \<Rightarrow> f x)"

text \<open>\<^verbatim>\<open>t[key]\<close>: a dict without the key raises KeyError; any other value subscripted
  with a str raises TypeError.\<close>

definition subscript :: "json \<Rightarrow> string \<Rightarrow> py_error + json" where
  "subscript t key =
     (case t of
        JObj kvs \<Rightarrow> (case map_of kvs key of None \<Rightarrow> Inl KeyError | Some v \<Rightarrow> Inr v)
      | _ \<Rightarrow> Inl TypeError)"

text \<open>\<^verbatim>\<open>v == i\<close> for an int \<open>i\<close>: numbers compare by value, \<^verbatim>\<open>True\<close> is 1 and \<^verbatim>\<open>False\<close>
  is 0, anything else is unequal.\<close>

definition py_eq_int :: "json \<Rightarrow> nat \<Rightarrow> bool" where
  "py_eq_int v i =
     (case v of
        JInt k \<Rightarrow> k = int i
      | JFloat r \<Rightarrow> r = of_nat i
      | JBool b \<Rightarrow> (if b then 1 else 0) = i
      | _ \<Rightarrow> False)"

text \<open>\<^verbatim>\<open>len(v)\<close> and the elements a \<^verbatim>\<open>for\<close> over \<open>v\<close> visits: a list gives its
  elements, a dict its keys, a str its characters.\<close>

definition py_len :: "json \<Rightarrow> py_error + nat" where
  "py_len v =
     (case v of
        JArr xs \<Rightarrow> Inr (length xs)
      | JObj kvs \<Rightarrow> Inr (length kvs)
      | JStr s \<Rightarrow> Inr (length s)
      | _ \<Rightarrow> Inl TypeError)"

definition py_iter :: "json \<Rightarrow> json list" where
  "py_iter v =
     (case v of
        JArr xs \<Rightarrow> xs
      | JObj kvs \<Rightarrow> map (\<lambda>kv. JStr (fst kv)) kvs
      | JStr s \<Rightarrow> map (\<lambda>c. JStr [c]) s
      | _ \<Rightarrow> [])"

subsection \<open>Trades and the session\<close>

text \<open>One entry of the list \<^verbatim>\<open>trades\<close>: the dict built at lines 83 to 92.\<close>

record trade =
  Trade :: nat
  Buy :: rat
  Sell :: rat
  Fee :: rat
  Profit :: rat
  ROI :: rat
  Total_Return :: rat
  Color :: string

text \<open>\<^verbatim>\<open>st.session_state\<close>: the two keys the script uses; \<open>None\<close> is an absent key.\<close>

record session =
  loaded_trades :: "json option"
  session_trades :: "trade list option"

text \<open>
  What each widget holds when the script runs. \<open>None\<close> is a widget that is new in this
  run: it returns its \<^verbatim>\<open>value\<close> (or \<^verbatim>\<open>index\<close>) argument. \<open>Some v\<close> is a widget that holds
  \<open>v\<close>, because the user has just entered it or because the widget was shown in the
  run before: it returns \<open>v\<close> whatever its \<^verbatim>\<open>value\<close> argument is now. The per-trade
  widgets are keyed by the trade index (\<^verbatim>\<open>buy_1\<close>, \<^verbatim>\<open>sell_1\<close>, ...); a colour is held as
  its position in the option list. What the widgets hold after a run is \<open>held_widgets\<close>
  below.
\<close>

record ui =
  ui_num_trades :: "nat option"
  ui_buy :: "nat \<Rightarrow> rat option"
  ui_sell :: "nat \<Rightarrow> rat option"
  ui_fee :: "nat \<Rightarrow> rat option"
  ui_color :: "nat \<Rightarrow> nat option"

definition no_edits :: ui where
  "no_edits =
     \<lparr>ui_num_trades = None, ui_buy = (\<lambda>i. None), ui_sell = (\<lambda>i. None),
      ui_fee = (\<lambda>i. None), ui_color = (\<lambda>i. None)\<rparr>"

subsection \<open>Widgets\<close>

text \<open>
  \<^verbatim>\<open>st.number_input\<close> with float bounds. The default must be a float that is not below
  \<^verbatim>\<open>min_value\<close>: a float below it and an int make Streamlit raise. The widget returns the
  value it holds (\<open>edit\<close>), clamped at \<^verbatim>\<open>min_value\<close> by the page, and the default when it
  holds none. The remaining defaults (a str, \<^verbatim>\<open>None\<close>, a list, a dict) are not told apart
  here: they are given the same error, although Streamlit accepts \<^verbatim>\<open>None\<close> and the word
  \<^verbatim>\<open>min\<close>. No property below rests on these cases.
\<close>

definition number_input :: "rat \<Rightarrow> json \<Rightarrow> rat option \<Rightarrow> py_error + rat" where
  "number_input min_value val edit =
     (case val of
        JFloat v \<Rightarrow>
          if v < min_value then Inl StreamlitAPIException
          else Inr (case edit of None \<Rightarrow> v | Some e \<Rightarrow> max min_value e)
      | _ \<Rightarrow> Inl StreamlitAPIException)"

text \<open>\<^verbatim>\<open>st.number_input\<close> with int bounds, for the number of trades.\<close>

definition number_input_int :: "nat \<Rightarrow> nat \<Rightarrow> nat \<Rightarrow> nat option \<Rightarrow> py_error + nat" where
  "number_input_int min_value max_value val edit =
     (if val < min_value \<or> max_value < val then Inl StreamlitAPIException
      else Inr (case edit of None \<Rightarrow> val | Some e \<Rightarrow> min max_value (max min_value e)))"

definition color_options :: "string list" where
  "color_options = [''default'', ''red'', ''blue'']"

text \<open>\<^verbatim>\<open>options.index(v)\<close>: the position of the first option equal to \<open>v\<close>, ValueError
  when there is none.\<close>

fun index_of :: "string list \<Rightarrow> json \<Rightarrow> py_error + nat" where
  "index_of [] v = Inl ValueError"
| "index_of (x # xs) v =
     (if v = JStr x then Inr 0
      else (case index_of xs v of Inl e \<Rightarrow> Inl e | Inr k \<Rightarrow> Inr (Suc k)))"

text \<open>\<^verbatim>\<open>st.selectbox\<close>: the option the widget holds (one of those offered), and the option
  at \<^verbatim>\<open>index\<close> when it holds none.\<close>

definition selectbox :: "string list \<Rightarrow> nat \<Rightarrow> nat option \<Rightarrow> string" where
  "selectbox options idx edit =
     options ! (case edit of None \<Rightarrow> idx | Some k \<Rightarrow> min k (length options - 1))"

subsection \<open>Tab 1, left: the trade input loop\<close>

text \<open>Lines 76 to 92: the calculations for one trade and the dict appended to \<^verbatim>\<open>trades\<close>.\<close>

definition make_trade :: "nat \<Rightarrow> rat \<Rightarrow> rat \<Rightarrow> rat \<Rightarrow> string \<Rightarrow> trade" where
  "make_trade i buy_price sell_price fee color =
     (let profit = (sell_price - buy_price) - (sell_price * fee / 100);
          roi = (if buy_price > 0 then profit / buy_price * 100 else 0);
          total_return = sell_price - (sell_price * fee / 100)
      in \<lparr>Trade = i, Buy = buy_price, Sell = sell_price, Fee = fee, Profit = profit,
          ROI = roi, Total_Return = total_return, Color = color\<rparr>)"

text \<open>Line 50: \<^verbatim>\<open>next((t for t in prev_trades if t["Trade"] == i), None)\<close>.\<close>

fun find_prev :: "json list \<Rightarrow> nat \<Rightarrow> py_error + json option" where
  "find_prev [] i = Inr None"
| "find_prev (t # ts) i =
     (case subscript t ''Trade'' of
        Inl e \<Rightarrow> Inl e
      | Inr v \<Rightarrow> if py_eq_int v i then Inr (Some t) else find_prev ts i)"

text \<open>\<^verbatim>\<open>prev[key] if prev else 0.0\<close>. A \<open>prev\<close> that was found has the key \<^verbatim>\<open>Trade\<close>, so
  it is a non-empty dict and counts as true.\<close>

definition prefill :: "json option \<Rightarrow> string \<Rightarrow> py_error + json" where
  "prefill prev key = (case prev of Some p \<Rightarrow> subscript p key | None \<Rightarrow> Inr (JFloat 0))"

definition prefill_index :: "json option \<Rightarrow> py_error + nat" where
  "prefill_index prev =
     (case prev of
        Some p \<Rightarrow> err_bind (subscript p ''Color'') (index_of color_options)
      | None \<Rightarrow> Inr 0)"

text \<open>The body of the loop for trade \<open>i\<close> (lines 50 to 92), the four widgets in the order
  of the source.\<close>

definition trade_entry :: "json list \<Rightarrow> ui \<Rightarrow> nat \<Rightarrow> py_error + trade" where
  "trade_entry prev_trades u i =
     err_bind (find_prev prev_trades i) (\<lambda>prev.
     err_bind (err_bind (prefill prev ''Buy'') (\<lambda>v. number_input 0 v (ui_buy u i))) (\<lambda>buy_price.
     err_bind (err_bind (prefill prev ''Sell'') (\<lambda>v. number_input 0 v (ui_sell u i))) (\<lambda>sell_price.
     err_bind (err_bind (prefill prev ''Fee (%)'') (\<lambda>v. number_input 0 v (ui_fee u i))) (\<lambda>fee.
     err_bind (prefill_index prev) (\<lambda>idx.
       Inr (make_trade i buy_price sell_price fee (selectbox color_options idx (ui_color u i))))))))"

record loop_state =
  trades :: "trade list"
  total_profit :: rat
  total_investment :: rat

definition loop_init :: loop_state where
  "loop_init = \<lparr>trades = [], total_profit = 0, total_investment = 0\<rparr>"

text \<open>Lines 80 to 92: the two running totals and the append.\<close>

definition record_trade :: "loop_state \<Rightarrow> trade \<Rightarrow> loop_state" where
  "record_trade st t =
     st\<lparr>total_profit := total_profit st + Profit t,
        total_investment := total_investment st + Buy t,
        trades := trades st @ [t]\<rparr>"

text \<open>The loop of line 49 over a list of indices; an exception in the body ends it.\<close>

fun trade_loop :: "json list \<Rightarrow> ui \<Rightarrow> nat list \<Rightarrow> loop_state \<Rightarrow> py_error + loop_state" where
  "trade_loop prev_trades u [] st = Inr st"
| "trade_loop prev_trades u (i # is) st =
     (case trade_entry prev_trades u i of
        Inl e \<Rightarrow> Inl e
      | Inr t \<Rightarrow> trade_loop prev_trades u is (record_trade st t))"

text \<open>\<^verbatim>\<open>reversed(range(1, num_trades + 1))\<close>.\<close>

definition trade_indices :: "nat \<Rightarrow> nat list" where
  "trade_indices num_trades = rev [1 ..< num_trades + 1]"

text \<open>Lines 31 to 92: the previous trades and their number, the widget for the number of
  trades, the loop.\<close>

definition trade_input :: "session \<Rightarrow> ui \<Rightarrow> py_error + loop_state" where
  "trade_input ss u =
     err_bind
       (case loaded_trades ss of
          Some data \<Rightarrow> err_bind (py_len data) (\<lambda>n. Inr (py_iter data, n))
        | None \<Rightarrow> Inr ([], 1))
       (\<lambda>(prev_trades, n).
          err_bind (number_input_int 1 50 n (ui_num_trades u)) (\<lambda>num_trades.
            trade_loop prev_trades u (trade_indices num_trades) loop_init))"

subsection \<open>Tab 1, right: the portfolio logic\<close>

record fold_state =
  portfolio_value :: rat
  prev_portfolio :: rat
  total_added_capital :: rat
  initialized :: bool

definition fold_init :: fold_state where
  "fold_init =
     \<lparr>portfolio_value = 0, prev_portfolio = 0, total_added_capital = 0, initialized = False\<rparr>"

definition net_result :: "trade \<Rightarrow> rat" where
  "net_result t = (Sell t - Buy t) - (Sell t * Fee t / 100)"

text \<open>The body of the loop of line 107.\<close>

definition fold_step :: "fold_state \<Rightarrow> trade \<Rightarrow> fold_state" where
  "fold_step st t =
     (let buy = Buy t;
          st1 =
            (if \<not> initialized st then
               st\<lparr>prev_portfolio := buy, portfolio_value := buy + net_result t,
                  initialized := True\<rparr>
             else if buy > prev_portfolio st then
               (let added_capital = buy - prev_portfolio st
                in st\<lparr>total_added_capital := total_added_capital st + added_capital,
                      portfolio_value := prev_portfolio st - buy + net_result t + added_capital\<rparr>)
             else
               st\<lparr>portfolio_value := prev_portfolio st - buy + net_result t + 0\<rparr>)
      in st1\<lparr>prev_portfolio := portfolio_value st1\<rparr>)"

text \<open>\<^verbatim>\<open>for t in reversed(trades)\<close>: the sequence the loop visits, and the loop.\<close>

definition reversed :: "'a list \<Rightarrow> 'a list" where
  "reversed xs = rev xs"

definition portfolio_logic :: "trade list \<Rightarrow> fold_state" where
  "portfolio_logic ts = foldl fold_step fold_init (reversed ts)"

text \<open>Lines 126 and 127.\<close>

definition effective_invested :: "trade list \<Rightarrow> rat" where
  "effective_invested ts =
     (if ts \<noteq> [] then Buy (last ts) else 0) + total_added_capital (portfolio_logic ts)"

definition total_roi :: "trade list \<Rightarrow> rat" where
  "total_roi ts =
     (if effective_invested ts > 0
      then ((portfolio_value (portfolio_logic ts) / effective_invested ts) - 1) * 100
      else 0)"

subsection \<open>Save and load\<close>

text \<open>
  \<^verbatim>\<open>json.dumps\<close> and \<^verbatim>\<open>json.load\<close> belong to Python's library. A file is represented by
  what \<^verbatim>\<open>json.load\<close> makes of it: \<open>None\<close> for a text that is not JSON, on which it raises,
  and \<open>Some v\<close> for a text that parses to the value \<open>v\<close>. The file that \<^verbatim>\<open>json.dumps\<close>
  writes for a value parses back to that value.
\<close>

type_synonym uploaded_file = "json option"

definition json_load :: "uploaded_file \<Rightarrow> py_error + json" where
  "json_load f = (case f of None \<Rightarrow> Inl JSONDecodeError | Some v \<Rightarrow> Inr v)"

text \<open>One entry of the saved list. Where the buy price is not positive, line 77 has
  stored the ROI as the int 0.\<close>

definition trade_json :: "trade \<Rightarrow> json" where
  "trade_json t =
     JObj [(''Trade'', JInt (int (Trade t))), (''Buy'', JFloat (Buy t)),
           (''Sell'', JFloat (Sell t)), (''Fee (%)'', JFloat (Fee t)),
           (''Profit'', JFloat (Profit t)),
           (''ROI (%)'', if Buy t > 0 then JFloat (ROI t) else JInt 0),
           (''Total Return'', JFloat (Total_Return t)), (''Color'', JStr (Color t))]"

definition json_dumps :: "trade list \<Rightarrow> uploaded_file" where
  "json_dumps ts = Some (JArr (map trade_json ts))"

datatype message = Success | Error py_error

text \<open>Lines 12 to 18.\<close>

definition load_trades :: "uploaded_file \<Rightarrow> session \<Rightarrow> session \<times> message" where
  "load_trades uploaded_file ss =
     (case json_load uploaded_file of
        Inr data \<Rightarrow> (ss\<lparr>loaded_trades := Some data\<rparr>, Success)
      | Inl e \<Rightarrow> (ss, Error e))"

subsection \<open>Widget state from one run to the next\<close>

text \<open>
  Streamlit keeps the value of a keyed widget from one run to the next, also when its
  \<^verbatim>\<open>value\<close> or \<^verbatim>\<open>index\<close> argument has changed in between, and drops the state of a widget
  that a run did not show. So after a run that built the list \<open>trades st\<close>, the widgets
  of each trade in the list hold the inputs of that trade, and the widgets of other
  indices hold nothing. The widget for the number of trades has no key and is identified
  by its arguments: it keeps its value while its default is the same in the next run
  (\<open>same_default\<close>), and is a new widget otherwise.
\<close>

definition option_position :: "string \<Rightarrow> nat option" where
  "option_position c =
     (case index_of color_options (JStr c) of Inr k \<Rightarrow> Some k | Inl e \<Rightarrow> None)"

definition shown_trade :: "loop_state \<Rightarrow> nat \<Rightarrow> trade option" where
  "shown_trade st i = find (\<lambda>t. Trade t = i) (trades st)"

definition held_widgets :: "bool \<Rightarrow> loop_state \<Rightarrow> ui" where
  "held_widgets same_default st =
     \<lparr>ui_num_trades = (if same_default then Some (length (trades st)) else None),
      ui_buy = (\<lambda>i. map_option Buy (shown_trade st i)),
      ui_sell = (\<lambda>i. map_option Sell (shown_trade st i)),
      ui_fee = (\<lambda>i. map_option Fee (shown_trade st i)),
      ui_color = (\<lambda>i. Option.bind (shown_trade st i) (\<lambda>t. option_position (Color t)))\<rparr>"

subsection \<open>What the input loop guarantees\<close>

text \<open>
  An entry whose derived fields are those the script computes from its inputs, whose
  numbers are not negative and whose colour is one of the options.
\<close>

definition wf_trade :: "trade \<Rightarrow> bool" where
  "wf_trade t =
     (t = make_trade (Trade t) (Buy t) (Sell t) (Fee t) (Color t)
      \<and> 0 \<le> Buy t \<and> 0 \<le> Sell t \<and> 0 \<le> Fee t
      \<and> Color t \<in> set color_options)"

subsection \<open>The example of two trades\<close>

text \<open>
  A fresh session in which the user asks for two trades and enters buy 200, sell 0 for
  trade 1 and buy 100, sell 150 for trade 2, with no fee; and the state the input loop
  builds from it.
\<close>

definition fresh_session :: session where
  "fresh_session = \<lparr>loaded_trades = None, session_trades = None\<rparr>"

definition ui_two_trades :: ui where
  "ui_two_trades =
     \<lparr>ui_num_trades = Some 2,
      ui_buy = (\<lambda>i. if i = 1 then Some 200 else Some 100),
      ui_sell = (\<lambda>i. if i = 1 then Some 0 else Some 150),
      ui_fee = (\<lambda>i. Some 0),
      ui_color = (\<lambda>i. None)\<rparr>"

definition two_trades :: "trade list" where
  "two_trades =
     [\<lparr>Trade = 2, Buy = 100, Sell = 150, Fee = 0, Profit = 50, ROI = 50,
       Total_Return = 150, Color = ''default''\<rparr>,
      \<lparr>Trade = 1, Buy = 200, Sell = 0, Fee = 0, Profit = - 200, ROI = - 100,
       Total_Return = 0, Color = ''default''\<rparr>]"

definition two_trades_state :: loop_state where
  "two_trades_state = \<lparr>trades = two_trades, total_profit = - 150, total_investment = 300\<rparr>"

text \<open>The session as the page first shows it: one trade, every field at its default.\<close>

definition one_default_trade :: "trade list" where
  "one_default_trade =
     [\<lparr>Trade = 1, Buy = 0, Sell = 0, Fee = 0, Profit = 0, ROI = 0, Total_Return = 0,
       Color = ''default''\<rparr>]"

definition one_default_state :: loop_state where
  "one_default_state = \<lparr>trades = one_default_trade, total_profit = 0, total_investment = 0\<rparr>"

subsection \<open>The example of four coloured trades\<close>

text \<open>
  Four trades in a fresh session: trade 1 red (buy 100, sell 150), trade 2 blue (buy 200,
  sell 180), trade 3 left at its defaults, trade 4 red (buy 50, sell 70); no fee.
\<close>

definition ui_four_trades :: ui where
  "ui_four_trades =
     \<lparr>ui_num_trades = Some 4,
      ui_buy = (\<lambda>i. if i = 1 then Some 100 else if i = 2 then Some 200
                   else if i = 4 then Some 50 else None),
      ui_sell = (\<lambda>i. if i = 1 then Some 150 else if i = 2 then Some 180
                    else if i = 4 then Some 70 else None),
      ui_fee = (\<lambda>i. None),
      ui_color = (\<lambda>i. if i = 1 then Some 1 else if i = 2 then Some 2
                     else if i = 4 then Some 1 else None)\<rparr>"

definition trade_1_red :: trade where
  "trade_1_red =
     \<lparr>Trade = 1, Buy = 100, Sell = 150, Fee = 0, Profit = 50, ROI = 50,
      Total_Return = 150, Color = ''red''\<rparr>"

definition trade_2_blue :: trade where
  "trade_2_blue =
     \<lparr>Trade = 2, Buy = 200, Sell = 180, Fee = 0, Profit = - 20, ROI = - 10,
      Total_Return = 180, Color = ''blue''\<rparr>"

definition trade_3_default :: trade where
  "trade_3_default =
     \<lparr>Trade = 3, Buy = 0, Sell = 0, Fee = 0, Profit = 0, ROI = 0,
      Total_Return = 0, Color = ''default''\<rparr>"

definition trade_4_red :: trade where
  "trade_4_red =
     \<lparr>Trade = 4, Buy = 50, Sell = 70, Fee = 0, Profit = 20, ROI = 40,
      Total_Return = 70, Color = ''red''\<rparr>"

definition four_trades_state :: loop_state where
  "four_trades_state =
     \<lparr>trades = [trade_4_red, trade_3_default, trade_2_blue, trade_1_red],
      total_profit = 50, total_investment = 350\<rparr>"

subsection \<open>A saved trade\<close>

text \<open>A session of one trade, bought at 1 and sold at 2, tagged red; the state the input
  loop builds from it, whose list is what the save button writes.\<close>

definition ui_one_red :: ui where
  "ui_one_red =
     \<lparr>ui_num_trades = None,
      ui_buy = (\<lambda>i. if i = 1 then Some 1 else None),
      ui_sell = (\<lambda>i. if i = 1 then Some 2 else None),
      ui_fee = (\<lambda>i. None),
      ui_color = (\<lambda>i. if i = 1 then Some 1 else None)\<rparr>"

definition one_red_state :: loop_state where
  "one_red_state =
     \<lparr>trades =
        [\<lparr>Trade = 1, Buy = 1, Sell = 2, Fee = 0, Profit = 1, ROI = 100, Total_Return = 2,
          Color = ''red''\<rparr>],
      total_profit = 1, total_investment = 1\<rparr>"

subsection \<open>A snapshot without the price fields\<close>

text \<open>The file \<^verbatim>\<open>[{"Trade": 1}]\<close>: JSON that parses, with no \<^verbatim>\<open>Buy\<close>, \<^verbatim>\<open>Sell\<close>, fee or
  colour.\<close>

definition snapshot_missing_fields :: uploaded_file where
  "snapshot_missing_fields = Some (JArr [JObj [(''Trade'', JInt 1)]])"

subsection \<open>Tab 2: tables and charts\<close>

text \<open>Line 162: the data frame of the trades, sorted by index. The indices of the rows
  are distinct, so the sorted order does not depend on the sorting algorithm.\<close>

definition sort_values_by_Trade :: "trade list \<Rightarrow> trade list" where
  "sort_values_by_Trade df = sort_key Trade df"

text \<open>Lines 192 and 193: the rows of one colour.\<close>

definition where_Color :: "string \<Rightarrow> trade list \<Rightarrow> trade list" where
  "where_Color c df = filter (\<lambda>t. Color t = c) df"

definition red_df :: "trade list \<Rightarrow> trade list" where
  "red_df df = where_Color ''red'' df"

definition blue_df :: "trade list \<Rightarrow> trade list" where
  "blue_df df = where_Color ''blue'' df"

subsection \<open>Floating point\<close>

text \<open>
  Python's float is the IEEE double, and each of \<^verbatim>\<open>+\<close>, \<^verbatim>\<open>-\<close>, \<^verbatim>\<open>*\<close>, \<^verbatim>\<open>/\<close> returns the
  double nearest to the exact result, a tie going to the double with the even last bit.
  The doubles around a number \<open>x\<close> with \<open>2 ^ e \<le> \<bar>x\<bar> < 2 ^ (e + 1)\<close> are the multiples of
  \<open>2 ^ (e - 52)\<close>, and of \<open>2 ^ - 1074\<close> for the smallest numbers. \<open>f64 x\<close> is the multiple
  nearest to \<open>x\<close>. (Beyond the largest double Python gives \<^verbatim>\<open>inf\<close>, which is not
  represented: \<open>f64\<close> goes on with the same spacing rule.)
\<close>

text \<open>The integer \<open>e\<close> with \<open>2 ^ e \<le> a < 2 ^ (e + 1)\<close>, for a positive \<open>a\<close>.\<close>

definition ilog2 :: "rat \<Rightarrow> int" where
  "ilog2 a =
     (if a \<ge> 1 then int (floorlog 2 (nat \<lfloor>a\<rfloor>)) - 1
      else - int (floorlog 2 (nat (\<lceil>1 / a\<rceil> - 1))))"

definition round_half_even :: "rat \<Rightarrow> int" where
  "round_half_even m =
     (let n = \<lfloor>m\<rfloor>; d = m - of_int n
      in if d < 1 / 2 then n
         else if d > 1 / 2 then n + 1
         else if even n then n else n + 1)"

definition f64 :: "rat \<Rightarrow> rat" where
  "f64 x =
     (if x = 0 then 0
      else
        (let q = max (ilog2 \<bar>x\<bar> - 52) (- 1074)
         in sgn x * of_int (round_half_even (\<bar>x\<bar> / 2 powi q)) * 2 powi q))"

text \<open>
  The arithmetic of the script once more, the result of every operation passed through
  a rounding function \<open>r\<close>. With \<open>r = f64\<close> this is what Python computes; with \<open>r = id\<close> it
  is the exact arithmetic of the definitions above.

  Lines 76 to 78 and the dict of lines 83 to 92.
\<close>

definition make_trade_r ::
    "(rat \<Rightarrow> rat) \<Rightarrow> nat \<Rightarrow> rat \<Rightarrow> rat \<Rightarrow> rat \<Rightarrow> string \<Rightarrow> trade" where
  "make_trade_r r i buy_price sell_price fee color =
     (let profit = r (r (sell_price - buy_price) - r (r (sell_price * fee) / 100));
          roi = (if buy_price > 0 then r (r (profit / buy_price) * 100) else 0);
          total_return = r (sell_price - r (r (sell_price * fee) / 100))
      in \<lparr>Trade = i, Buy = buy_price, Sell = sell_price, Fee = fee, Profit = profit,
          ROI = roi, Total_Return = total_return, Color = color\<rparr>)"

text \<open>Line 111.\<close>

definition net_result_r :: "(rat \<Rightarrow> rat) \<Rightarrow> trade \<Rightarrow> rat" where
  "net_result_r r t = r (r (Sell t - Buy t) - r (r (Sell t * Fee t) / 100))"

text \<open>The body of the loop of line 107. In the last branch \<^verbatim>\<open>added_capital\<close> is the
  int 0.\<close>

definition fold_step_r :: "(rat \<Rightarrow> rat) \<Rightarrow> fold_state \<Rightarrow> trade \<Rightarrow> fold_state" where
  "fold_step_r r st t =
     (let buy = Buy t;
          st1 =
            (if \<not> initialized st then
               st\<lparr>prev_portfolio := buy, portfolio_value := r (buy + net_result_r r t),
                  initialized := True\<rparr>
             else if buy > prev_portfolio st then
               (let added_capital = r (buy - prev_portfolio st)
                in st\<lparr>total_added_capital := r (total_added_capital st + added_capital),
                      portfolio_value :=
                        r (r (r (prev_portfolio st - buy) + net_result_r r t) + added_capital)\<rparr>)
             else
               st\<lparr>portfolio_value :=
                    r (r (r (prev_portfolio st - buy) + net_result_r r t) + 0)\<rparr>)
      in st1\<lparr>prev_portfolio := portfolio_value st1\<rparr>)"

text \<open>\<^verbatim>\<open>cumsum\<close>: the first entry as it is, each later entry the rounded sum of the entry
  before it and the next number of the column.\<close>

fun cumsum_from :: "(rat \<Rightarrow> rat) \<Rightarrow> rat \<Rightarrow> rat list \<Rightarrow> rat list" where
  "cumsum_from r acc [] = []"
| "cumsum_from r acc (x # xs) = r (acc + x) # cumsum_from r (r (acc + x)) xs"

definition cumsum :: "(rat \<Rightarrow> rat) \<Rightarrow> rat list \<Rightarrow> rat list" where
  "cumsum r xs = (case xs of [] \<Rightarrow> [] | x # xs' \<Rightarrow> x # cumsum_from r x xs')"

text \<open>Lines 179 and 180 of \<^verbatim>\<open>show_charts\<close>: the two columns are accumulated apart and
  then added row by row.\<close>

definition chart_portfolio_value :: "(rat \<Rightarrow> rat) \<Rightarrow> trade list \<Rightarrow> rat list" where
  "chart_portfolio_value r df_subset =
     (let chart_df = sort_values_by_Trade df_subset
      in map2 (\<lambda>b p. r (b + p)) (cumsum r (map Buy chart_df)) (cumsum r (map Profit chart_df)))"

text \<open>What the chart is compared with: buy price plus profit of a row, and the sum of a
  list taken from left to right, each partial sum rounded.\<close>

definition buy_plus_profit :: "(rat \<Rightarrow> rat) \<Rightarrow> trade \<Rightarrow> rat" where
  "buy_plus_profit r t = r (Buy t + Profit t)"

definition sum_left :: "(rat \<Rightarrow> rat) \<Rightarrow> rat list \<Rightarrow> rat" where
  "sum_left r xs = (case xs of [] \<Rightarrow> 0 | x # xs' \<Rightarrow> foldl (\<lambda>a b. r (a + b)) x xs')"

subsection \<open>Examples in double arithmetic\<close>

text \<open>
  A first trade bought and sold at 7.31, or at 8.33, and a second trade bought at 209.03
  and sold at 20.04, no fee: the numbers are the doubles the widgets return for these
  entries, and the derived fields are those the script computes in doubles.
\<close>

definition first_trade_731 :: trade where
  "first_trade_731 = make_trade_r f64 1 (f64 (731 / 100)) (f64 (731 / 100)) 0 ''default''"

definition first_trade_833 :: trade where
  "first_trade_833 = make_trade_r f64 1 (f64 (833 / 100)) (f64 (833 / 100)) 0 ''default''"

definition second_trade_20903 :: trade where
  "second_trade_20903 =
     make_trade_r f64 2 (f64 (20903 / 100)) (f64 (2004 / 100)) 0 ''default''"

text \<open>Three red trades: bought at 346.78, 479.57 and 383.27, sold at 92.32, 150.77 and
  499.44, no fee; the table of the three in index order.\<close>

definition red_row_1 :: trade where
  "red_row_1 = make_trade_r f64 1 (f64 (34678 / 100)) (f64 (9232 / 100)) 0 ''red''"

definition red_row_2 :: trade where
  "red_row_2 = make_trade_r f64 2 (f64 (47957 / 100)) (f64 (15077 / 100)) 0 ''red''"

definition red_row_3 :: trade where
  "red_row_3 = make_trade_r f64 3 (f64 (38327 / 100)) (f64 (49944 / 100)) 0 ''red''"

definition three_red_rows :: "trade list" where
  "three_red_rows = [red_row_1, red_row_2, red_row_3]"

section \<open>Properties\<close>

subsection \<open>The examples, evaluated\<close>

lemma two_trades_built: "trade_input fresh_session ui_two_trades = Inr two_trades_state"
  by (simp add: trade_input_def fresh_session_def ui_two_trades_def two_trades_state_def
      two_trades_def err_bind_def number_input_int_def trade_indices_def loop_init_def
      trade_entry_def prefill_def prefill_index_def number_input_def selectbox_def
      color_options_def make_trade_def upt_rec record_trade_def)

lemma one_default_built: "trade_input fresh_session no_edits = Inr one_default_state"
  by (simp add: trade_input_def fresh_session_def no_edits_def one_default_state_def
      one_default_trade_def err_bind_def number_input_int_def trade_indices_def loop_init_def
      trade_entry_def prefill_def prefill_index_def number_input_def selectbox_def
      color_options_def make_trade_def upt_rec record_trade_def)

lemma two_trades_fold:
  "portfolio_logic two_trades =
     \<lparr>portfolio_value = 50, prev_portfolio = 50, total_added_capital = 100,
      initialized = True\<rparr>"
  by (simp add: portfolio_logic_def reversed_def two_trades_def fold_step_def fold_init_def
      net_result_def Let_def)

lemma four_trades_built: "trade_input fresh_session ui_four_trades = Inr four_trades_state"
  by (simp add: trade_input_def fresh_session_def ui_four_trades_def four_trades_state_def
      trade_1_red_def trade_2_blue_def trade_3_default_def trade_4_red_def
      err_bind_def number_input_int_def trade_indices_def loop_init_def
      trade_entry_def prefill_def prefill_index_def number_input_def selectbox_def
      color_options_def make_trade_def upt_rec record_trade_def)

lemma four_trades_sorted:
  "sort_values_by_Trade (trades four_trades_state) =
     [trade_1_red, trade_2_blue, trade_3_default, trade_4_red]"
  by (simp add: sort_values_by_Trade_def four_trades_state_def
      trade_1_red_def trade_2_blue_def trade_3_default_def trade_4_red_def)

lemma one_default_fold:
  "portfolio_logic one_default_trade =
     \<lparr>portfolio_value = 0, prev_portfolio = 0, total_added_capital = 0,
      initialized = True\<rparr>"
  by (simp add: portfolio_logic_def reversed_def one_default_trade_def fold_step_def fold_init_def
      net_result_def Let_def)

lemma one_red_built: "trade_input fresh_session ui_one_red = Inr one_red_state"
  by (simp add: trade_input_def fresh_session_def ui_one_red_def one_red_state_def
      err_bind_def number_input_int_def trade_indices_def loop_init_def
      trade_entry_def prefill_def prefill_index_def number_input_def selectbox_def
      color_options_def make_trade_def upt_rec record_trade_def)

subsection \<open>The input loop\<close>

lemma err_bind_Inr: "err_bind m f = Inr y \<Longrightarrow> \<exists>x. m = Inr x \<and> f x = Inr y"
  by (cases m) (simp_all add: err_bind_def)

lemma number_input_nonneg: "number_input 0 v e = Inr x \<Longrightarrow> 0 \<le> x"
  by (auto simp: number_input_def split: json.splits if_splits option.splits)

lemma index_of_bound: "index_of xs v = Inr k \<Longrightarrow> k < length xs"
  by (induction xs arbitrary: k) (auto split: if_splits sum.splits)

lemma prefill_index_bound: "prefill_index prev = Inr k \<Longrightarrow> k < length color_options"
proof (cases prev)
  case None
  assume "prefill_index prev = Inr k"
  with None show ?thesis by (simp add: prefill_index_def color_options_def)
next
  case (Some p)
  assume "prefill_index prev = Inr k"
  with Some show ?thesis
    by (auto simp: prefill_index_def dest!: err_bind_Inr index_of_bound)
qed

lemma selectbox_in_options:
  assumes "idx < length color_options"
  shows "selectbox color_options idx e \<in> set color_options"
proof -
  have "(case e of None \<Rightarrow> idx | Some k \<Rightarrow> min k (length color_options - 1))
      < length color_options"
    using assms by (cases e) (simp_all add: color_options_def)
  then show ?thesis unfolding selectbox_def by (rule nth_mem)
qed

lemma wf_make_trade:
  "0 \<le> b \<Longrightarrow> 0 \<le> s \<Longrightarrow> 0 \<le> f \<Longrightarrow> c \<in> set color_options \<Longrightarrow> wf_trade (make_trade i b s f c)"
  by (simp add: wf_trade_def make_trade_def Let_def)

lemma wf_trade_fields:
  assumes "wf_trade t"
  shows "Profit t = (Sell t - Buy t) - (Sell t * Fee t / 100)"
    and "Total_Return t = Sell t - (Sell t * Fee t / 100)"
    and "ROI t = (if Buy t > 0 then Profit t / Buy t * 100 else 0)"
proof -
  let ?m = "make_trade (Trade t) (Buy t) (Sell t) (Fee t) (Color t)"
  from assms have e: "t = ?m" unfolding wf_trade_def by (rule conjunct1)
  have "Profit t = Profit ?m" "Total_Return t = Total_Return ?m" "ROI t = ROI ?m"
    using e by (rule arg_cong)+
  then show "Profit t = (Sell t - Buy t) - (Sell t * Fee t / 100)"
    and "Total_Return t = Sell t - (Sell t * Fee t / 100)"
    and "ROI t = (if Buy t > 0 then Profit t / Buy t * 100 else 0)"
    by (simp_all add: make_trade_def Let_def)
qed

lemma Trade_make_trade: "Trade (make_trade i b s f c) = i"
  by (simp add: make_trade_def Let_def)

lemma err_bind_InrE:
  assumes "err_bind m f = Inr y"
  obtains x where "m = Inr x" and "f x = Inr y"
  using assms by (cases m) (simp_all add: err_bind_def)

lemma field_input_nonneg:
  "err_bind (prefill prev key) (\<lambda>v. number_input 0 v e) = Inr x \<Longrightarrow> 0 \<le> x"
  by (erule err_bind_InrE) (rule number_input_nonneg)

lemma trade_entry_Inr:
  assumes "trade_entry prev_trades u i = Inr t"
  shows "wf_trade t \<and> Trade t = i"
proof -
  from assms [unfolded trade_entry_def] obtain prev where
    r1: "err_bind (err_bind (prefill prev ''Buy'') (\<lambda>v. number_input 0 v (ui_buy u i))) (\<lambda>buy_price.
     err_bind (err_bind (prefill prev ''Sell'') (\<lambda>v. number_input 0 v (ui_sell u i))) (\<lambda>sell_price.
     err_bind (err_bind (prefill prev ''Fee (%)'') (\<lambda>v. number_input 0 v (ui_fee u i))) (\<lambda>fee.
     err_bind (prefill_index prev) (\<lambda>idx.
       Inr (make_trade i buy_price sell_price fee (selectbox color_options idx (ui_color u i))))))) = Inr t"
    by (rule err_bind_InrE)
  from r1 obtain b where
    b: "err_bind (prefill prev ''Buy'') (\<lambda>v. number_input 0 v (ui_buy u i)) = Inr b" and
    r2: "err_bind (err_bind (prefill prev ''Sell'') (\<lambda>v. number_input 0 v (ui_sell u i))) (\<lambda>sell_price.
     err_bind (err_bind (prefill prev ''Fee (%)'') (\<lambda>v. number_input 0 v (ui_fee u i))) (\<lambda>fee.
     err_bind (prefill_index prev) (\<lambda>idx.
       Inr (make_trade i b sell_price fee (selectbox color_options idx (ui_color u i)))))) = Inr t"
    by (rule err_bind_InrE)
  from r2 obtain s where
    s: "err_bind (prefill prev ''Sell'') (\<lambda>v. number_input 0 v (ui_sell u i)) = Inr s" and
    r3: "err_bind (err_bind (prefill prev ''Fee (%)'') (\<lambda>v. number_input 0 v (ui_fee u i))) (\<lambda>fee.
     err_bind (prefill_index prev) (\<lambda>idx.
       Inr (make_trade i b s fee (selectbox color_options idx (ui_color u i))))) = Inr t"
    by (rule err_bind_InrE)
  from r3 obtain f where
    f: "err_bind (prefill prev ''Fee (%)'') (\<lambda>v. number_input 0 v (ui_fee u i)) = Inr f" and
    r4: "err_bind (prefill_index prev) (\<lambda>idx.
       Inr (make_trade i b s f (selectbox color_options idx (ui_color u i)))) = Inr t"
    by (rule err_bind_InrE)
  from r4 obtain idx where
    idx: "prefill_index prev = Inr idx" and
    t: "Inr (make_trade i b s f (selectbox color_options idx (ui_color u i))) = (Inr t :: py_error + trade)"
    by (rule err_bind_InrE)
  from idx have "selectbox color_options idx (ui_color u i) \<in> set color_options"
    by (intro selectbox_in_options prefill_index_bound)
  with field_input_nonneg [OF b] field_input_nonneg [OF s] field_input_nonneg [OF f]
  have "wf_trade (make_trade i b s f (selectbox color_options idx (ui_color u i)))"
    by (rule wf_make_trade)
  with t show ?thesis by (auto simp: Trade_make_trade)
qed

lemma trades_foldl_record: "trades (foldl record_trade st ts) = trades st @ ts"
  by (induction ts arbitrary: st) (simp_all add: record_trade_def)

lemma trade_loop_Inr:
  "trade_loop prev_trades u is st = Inr st' \<Longrightarrow>
   \<exists>ts. st' = foldl record_trade st ts \<and> map Trade ts = is \<and> list_all wf_trade ts"
proof (induction "is" arbitrary: st)
  case Nil
  then show ?case by (intro exI [of _ "[]"]) simp
next
  case (Cons i "is")
  from Cons.prems obtain t where t: "trade_entry prev_trades u i = Inr t"
    and rest: "trade_loop prev_trades u is (record_trade st t) = Inr st'"
    by (auto split: sum.splits)
  from Cons.IH [OF rest] obtain ts where
    "st' = foldl record_trade (record_trade st t) ts" "map Trade ts = is" "list_all wf_trade ts"
    by blast
  with trade_entry_Inr [OF t] show ?case
    by (intro exI [of _ "t # ts"]) simp
qed

lemma trade_input_Inr:
  assumes "trade_input ss u = Inr st"
  shows "\<exists>n. 1 \<le> n \<and> n \<le> 50 \<and> map Trade (trades st) = rev [1 ..< n + 1]
           \<and> list_all wf_trade (trades st) \<and> st = foldl record_trade loop_init (trades st)"
proof -
  from assms obtain prev_trades n0 num_trades where
    n: "number_input_int 1 50 n0 (ui_num_trades u) = Inr num_trades" and
    l: "trade_loop prev_trades u (trade_indices num_trades) loop_init = Inr st"
    unfolding trade_input_def by (fastforce dest!: err_bind_Inr)
  from n have bounds: "1 \<le> num_trades \<and> num_trades \<le> 50"
    by (auto simp: number_input_int_def split: if_splits option.splits)
  from trade_loop_Inr [OF l] obtain ts where
    ts: "st = foldl record_trade loop_init ts" "map Trade ts = trade_indices num_trades"
      "list_all wf_trade ts"
    by blast
  from ts(1) have "trades st = ts" by (simp add: trades_foldl_record loop_init_def)
  with ts bounds show ?thesis
    by (intro exI [of _ num_trades]) (simp add: trade_indices_def)
qed

lemma portfolio_logic_snoc:
  "portfolio_logic (ts @ [t]) = foldl fold_step (fold_step fold_init t) (reversed ts)"
  by (simp add: portfolio_logic_def reversed_def)

subsection \<open>Per-trade figures\<close>

text \<open>
  Claim C5. For every trade the input loop records, whatever its index, prices, fee and
  colour: the profit is \<open>(sell - buy) - sell * fee / 100\<close>, the total return is
  \<open>sell - sell * fee / 100\<close>, the ROI is \<open>profit / buy * 100\<close> when the buy price is
  positive, and the ROI is 0 when the buy price is 0, whatever the sell price and the fee.
\<close>

theorem per_trade_metrics:
  "Profit (make_trade i buy_price sell_price fee color) =
     (sell_price - buy_price) - sell_price * fee / 100
   \<and> Total_Return (make_trade i buy_price sell_price fee color) =
       sell_price - sell_price * fee / 100
   \<and> (buy_price > 0 \<longrightarrow>
        ROI (make_trade i buy_price sell_price fee color) =
          Profit (make_trade i buy_price sell_price fee color) / buy_price * 100)
   \<and> (buy_price = 0 \<longrightarrow> ROI (make_trade i buy_price sell_price fee color) = 0)
   \<and> Buy (make_trade i buy_price sell_price fee color) = buy_price
   \<and> Sell (make_trade i buy_price sell_price fee color) = sell_price
   \<and> Fee (make_trade i buy_price sell_price fee color) = fee
   \<and> (trade_entry prev_trades u j = Inr t \<longrightarrow>
        Profit t = (Sell t - Buy t) - Sell t * Fee t / 100
        \<and> Total_Return t = Sell t - Sell t * Fee t / 100
        \<and> (Buy t > 0 \<longrightarrow> ROI t = Profit t / Buy t * 100)
        \<and> (Buy t = 0 \<longrightarrow> ROI t = 0))"
proof -
  have "Profit t = (Sell t - Buy t) - Sell t * Fee t / 100
        \<and> Total_Return t = Sell t - Sell t * Fee t / 100
        \<and> (Buy t > 0 \<longrightarrow> ROI t = Profit t / Buy t * 100)
        \<and> (Buy t = 0 \<longrightarrow> ROI t = 0)"
    if "trade_entry prev_trades u j = Inr t"
  proof -
    from trade_entry_Inr [OF that] have "wf_trade t" by (rule conjunct1)
    from wf_trade_fields [OF this] show ?thesis by simp
  qed
  then show ?thesis by (simp add: make_trade_def Let_def)
qed

theorem per_trade_metrics_witness:
  "(100::rat) > 0
   \<and> ROI (make_trade 1 100 150 1 ''default'') =
       Profit (make_trade 1 100 150 1 ''default'') / 100 * 100
   \<and> Profit (make_trade 1 100 150 1 ''default'') = 97 / 2
   \<and> ROI (make_trade 1 100 150 1 ''default'') = 97 / 2
   \<and> (0::rat) = 0
   \<and> ROI (make_trade 1 0 150 1 ''default'') = 0
   \<and> trade_entry [] ui_two_trades 2 = Inr (hd two_trades)
   \<and> Profit (hd two_trades) = 50
   \<and> ROI (hd two_trades) = 50"
proof -
  have e: "trade_entry [] ui_two_trades 2 = Inr (hd two_trades)"
    by (simp add: trade_entry_def ui_two_trades_def two_trades_def err_bind_def prefill_def
        prefill_index_def number_input_def selectbox_def color_options_def make_trade_def)
  have v: "Buy (hd two_trades) = 100" "Sell (hd two_trades) = 150" "Fee (hd two_trades) = 0"
    by (simp_all add: two_trades_def)
  from per_trade_metrics [of 1 100 150 1 "''default''" "[]" ui_two_trades 2 "hd two_trades"]
    per_trade_metrics [of 1 0 150 1 "''default''"] e
  show ?thesis by (simp add: v)
qed

subsection \<open>The portfolio fold\<close>

text \<open>
  Claim C8. On the empty list of trades every output is 0: the input loop over no index
  leaves the list empty and the total profit 0, and the portfolio logic on the empty list
  gives portfolio value 0, added capital 0 and total ROI 0.
\<close>

theorem empty_list_outputs:
  "trade_indices 0 = []
   \<and> trade_loop prev_trades u (trade_indices 0) loop_init = Inr loop_init
   \<and> trades loop_init = []
   \<and> total_profit loop_init = 0
   \<and> total_investment loop_init = 0
   \<and> total_roi [] = 0
   \<and> portfolio_value (portfolio_logic []) = 0
   \<and> total_added_capital (portfolio_logic []) = 0
   \<and> effective_invested [] = 0"
  by (simp add: trade_indices_def loop_init_def total_roi_def effective_invested_def
      portfolio_logic_def reversed_def fold_init_def)

text \<open>
  Claim C2, as the script computes it. For the two trades of the example (trade 1: buy 200,
  sell 0; trade 2: buy 100, sell 150; no fee) the fold starts with trade 1, which leaves
  the portfolio at 0, and trade 2 then injects 100: the added capital is 100 and the
  portfolio value is 50.
\<close>

theorem two_trades_totals:
  "trade_input fresh_session ui_two_trades = Inr two_trades_state
   \<and> total_added_capital (portfolio_logic (trades two_trades_state)) = 100
   \<and> portfolio_value (portfolio_logic (trades two_trades_state)) = 50"
  by (simp add: two_trades_built two_trades_state_def two_trades_fold)

text \<open>The figures of claim C2 as it was stated, 50 and -200, are not what comes out.\<close>

theorem two_trades_totals_counterexample:
  "trade_input fresh_session ui_two_trades = Inr two_trades_state
   \<and> \<not> (total_added_capital (portfolio_logic (trades two_trades_state)) = 50
        \<and> portfolio_value (portfolio_logic (trades two_trades_state)) = - 200)"
  by (simp add: two_trades_built two_trades_state_def two_trades_fold)

subsection \<open>Order of the fold and total ROI\<close>

lemma input_indices:
  assumes "trade_input ss u = Inr st"
  shows "trades st \<noteq> []
    \<and> map Trade (trades st) = rev [1 ..< length (trades st) + 1]
    \<and> Trade (last (trades st)) = 1
    \<and> Trade (hd (trades st)) = length (trades st)"
proof -
  from trade_input_Inr [OF assms] obtain n where
    n: "1 \<le> n" and m: "map Trade (trades st) = rev [1 ..< n + 1]"
    by blast
  from m have len: "length (trades st) = n"
    by (metis length_map length_rev length_upt add_diff_cancel_right')
  from n len have ne: "trades st \<noteq> []" by auto
  have "Trade (last (trades st)) = last (map Trade (trades st))"
    using ne by (simp add: last_map)
  also have "\<dots> = 1" using n by (simp add: m last_rev upt_conv_Cons del: upt_Suc)
  finally have seed: "Trade (last (trades st)) = 1" .
  have "Trade (hd (trades st)) = hd (map Trade (trades st))"
    using ne by (simp add: hd_map)
  also have "\<dots> = length (trades st)" using n by (simp add: m hd_rev len)
  finally have top: "Trade (hd (trades st)) = length (trades st)" .
  from ne m len seed top show ?thesis by simp
qed

text \<open>
  Claim C1, as the script does it. The input loop appends the trades from index N down to
  index 1, and the fold visits \<^verbatim>\<open>reversed(trades)\<close>: it processes the trades in ascending
  index order, 1 to N. The trade with index 1 (the earliest) seeds the fold: after its step
  the portfolio value and the previous portfolio value are its buy price plus its net
  result, and no capital has been added; the trades 2 to N are folded in afterwards.
\<close>

theorem fold_order:
  assumes "trade_input ss u = Inr st"
  shows "map Trade (reversed (trades st)) = [1 ..< length (trades st) + 1]
    \<and> trades st \<noteq> []
    \<and> Trade (last (trades st)) = 1
    \<and> hd (reversed (trades st)) = last (trades st)
    \<and> portfolio_logic (trades st) =
        foldl fold_step (fold_step fold_init (last (trades st))) (reversed (butlast (trades st)))
    \<and> portfolio_value (fold_step fold_init (last (trades st))) =
        Buy (last (trades st)) + net_result (last (trades st))
    \<and> prev_portfolio (fold_step fold_init (last (trades st))) =
        Buy (last (trades st)) + net_result (last (trades st))
    \<and> total_added_capital (fold_step fold_init (last (trades st))) = 0"
proof -
  from input_indices [OF assms] have ne: "trades st \<noteq> []"
    and m: "map Trade (trades st) = rev [1 ..< length (trades st) + 1]"
    and seed: "Trade (last (trades st)) = 1"
    by simp_all
  have order: "map Trade (reversed (trades st)) = [1 ..< length (trades st) + 1]"
    unfolding reversed_def rev_map [symmetric] m by simp
  have first: "hd (reversed (trades st)) = last (trades st)"
    using ne by (simp add: reversed_def hd_rev)
  have "portfolio_logic (butlast (trades st) @ [last (trades st)]) =
      foldl fold_step (fold_step fold_init (last (trades st))) (reversed (butlast (trades st)))"
    by (rule portfolio_logic_snoc)
  with ne have fold: "portfolio_logic (trades st) =
      foldl fold_step (fold_step fold_init (last (trades st))) (reversed (butlast (trades st)))"
    by simp
  show ?thesis
    using order ne seed first fold by (simp add: fold_step_def fold_init_def Let_def)
qed

theorem fold_order_witness:
  "trade_input fresh_session ui_two_trades = Inr two_trades_state
   \<and> map Trade (reversed (trades two_trades_state)) = [1, 2]
   \<and> Trade (last (trades two_trades_state)) = 1
   \<and> portfolio_value (fold_step fold_init (last (trades two_trades_state))) = 0
   \<and> portfolio_logic (trades two_trades_state) =
       fold_step (fold_step fold_init (last two_trades)) (hd two_trades)"
  using fold_order [OF two_trades_built] two_trades_built
  by (simp add: two_trades_state_def two_trades_def net_result_def reversed_def)

text \<open>Claim C1 as it was stated fails on the two trades of the example: the fold is seeded
  by trade 1, not by trade 2, the highest index.\<close>

theorem fold_order_counterexample:
  "trade_input fresh_session ui_two_trades = Inr two_trades_state
   \<and> length (trades two_trades_state) = 2
   \<and> Trade (hd (reversed (trades two_trades_state))) = 1
   \<and> Trade (hd (reversed (trades two_trades_state))) \<noteq> length (trades two_trades_state)
   \<and> map Trade (reversed (trades two_trades_state)) \<noteq> [2, 1]
   \<and> portfolio_value (fold_step fold_init (hd (reversed (trades two_trades_state)))) = 0
   \<and> Buy (hd (trades two_trades_state)) + net_result (hd (trades two_trades_state)) = 150"
  by (simp add: two_trades_built two_trades_state_def two_trades_def reversed_def
      fold_step_def fold_init_def net_result_def Let_def)

text \<open>
  Claim C3, as the script does it. For every list the input loop builds (it is never
  empty), the total ROI is \<open>(portfolio_value / effective_invested - 1) * 100\<close> when the
  effective investment is positive and 0 otherwise, where the effective investment is the
  buy price of \<^verbatim>\<open>trades[-1]\<close> plus the added capital; and \<^verbatim>\<open>trades[-1]\<close> is the trade with
  index 1, the earliest one.
\<close>

theorem total_roi_formula:
  assumes "trade_input ss u = Inr st"
  shows "trades st \<noteq> []
    \<and> Trade (last (trades st)) = 1
    \<and> effective_invested (trades st) =
        Buy (last (trades st)) + total_added_capital (portfolio_logic (trades st))
    \<and> (effective_invested (trades st) > 0 \<longrightarrow>
         total_roi (trades st) =
           (portfolio_value (portfolio_logic (trades st)) / effective_invested (trades st) - 1) * 100)
    \<and> (effective_invested (trades st) \<le> 0 \<longrightarrow> total_roi (trades st) = 0)"
  using input_indices [OF assms] by (simp add: effective_invested_def total_roi_def)

theorem total_roi_formula_witness:
  "trade_input fresh_session ui_two_trades = Inr two_trades_state
   \<and> Trade (last (trades two_trades_state)) = 1
   \<and> effective_invested (trades two_trades_state) = 300
   \<and> total_roi (trades two_trades_state) = (50 / 300 - 1) * 100
   \<and> trade_input fresh_session no_edits = Inr one_default_state
   \<and> effective_invested (trades one_default_state) = 0
   \<and> total_roi (trades one_default_state) = 0"
proof -
  have a: "Buy (last (trades two_trades_state)) = 200"
    by (simp add: two_trades_state_def two_trades_def)
  have b: "Buy (last (trades one_default_state)) = 0"
    by (simp add: one_default_state_def one_default_trade_def)
  have c: "portfolio_logic (trades two_trades_state) = portfolio_logic two_trades"
    "portfolio_logic (trades one_default_state) = portfolio_logic one_default_trade"
    by (simp_all add: two_trades_state_def one_default_state_def)
  from total_roi_formula [OF two_trades_built] total_roi_formula [OF one_default_built]
    two_trades_built one_default_built
  show ?thesis by (simp add: a b c two_trades_fold one_default_fold)
qed

text \<open>Claim C3 as it was stated, with the buy price of the trade of highest index, fails on
  the two trades of the example.\<close>

theorem total_roi_formula_counterexample:
  "trade_input fresh_session ui_two_trades = Inr two_trades_state
   \<and> length (trades two_trades_state) = 2
   \<and> Trade (hd (trades two_trades_state)) = 2
   \<and> Buy (hd (trades two_trades_state))
       + total_added_capital (portfolio_logic (trades two_trades_state)) = 200
   \<and> total_roi (trades two_trades_state) = - (250 / 3)
   \<and> total_roi (trades two_trades_state) \<noteq>
       (portfolio_value (portfolio_logic (trades two_trades_state))
          / (Buy (hd (trades two_trades_state))
             + total_added_capital (portfolio_logic (trades two_trades_state))) - 1) * 100"
proof -
  have c: "portfolio_logic (trades two_trades_state) = portfolio_logic two_trades"
    by (simp add: two_trades_state_def)
  have d: "trades two_trades_state = two_trades" by (simp add: two_trades_state_def)
  have e: "hd two_trades = \<lparr>Trade = 2, Buy = 100, Sell = 150, Fee = 0, Profit = 50, ROI = 50,
       Total_Return = 150, Color = ''default''\<rparr>" "last two_trades = \<lparr>Trade = 1, Buy = 200, Sell = 0, Fee = 0, Profit = - 200, ROI = - 100,
       Total_Return = 0, Color = ''default''\<rparr>" "length two_trades = 2" "two_trades \<noteq> []"
    by (simp_all add: two_trades_def)
  show ?thesis
    by (simp add: two_trades_built total_roi_def effective_invested_def d e two_trades_fold)
qed

subsection \<open>Split by colour\<close>

lemma length_where_Color_split:
  "length (where_Color ''red'' df) + length (where_Color ''blue'' df)
     + length (filter (\<lambda>t. Color t \<noteq> ''red'' \<and> Color t \<noteq> ''blue'') df) = length df"
  by (induction df) (simp_all add: where_Color_def)

lemma other_is_default:
  "list_all (\<lambda>t. Color t \<in> set color_options) df \<Longrightarrow>
   filter (\<lambda>t. Color t \<noteq> ''red'' \<and> Color t \<noteq> ''blue'') df = where_Color ''default'' df"
  unfolding where_Color_def
  by (rule filter_cong) (auto simp: list_all_iff color_options_def)

text \<open>
  Claim C4, as the script does it. The split by colour makes two subsets, red and blue.
  Each holds only rows of its own colour, taken from the table. Their sizes and the number
  of rows that are neither red nor blue add up to the number of rows; when every colour is
  one of the three options, as in every list the input loop builds, those other rows are
  the ones tagged default, which belong to no subset.
\<close>

theorem color_subsets:
  "(\<forall>t \<in> set (red_df df). Color t = ''red'' \<and> t \<in> set df)
   \<and> (\<forall>t \<in> set (blue_df df). Color t = ''blue'' \<and> t \<in> set df)
   \<and> length (red_df df) + length (blue_df df)
       + length (filter (\<lambda>t. Color t \<noteq> ''red'' \<and> Color t \<noteq> ''blue'') df) = length df
   \<and> (list_all (\<lambda>t. Color t \<in> set color_options) df \<longrightarrow>
        length (red_df df) + length (blue_df df) + length (where_Color ''default'' df)
          = length df)"
proof -
  have count: "length (red_df df) + length (blue_df df)
       + length (filter (\<lambda>t. Color t \<noteq> ''red'' \<and> Color t \<noteq> ''blue'') df) = length df"
    unfolding red_df_def blue_df_def by (rule length_where_Color_split)
  have red: "\<forall>t \<in> set (red_df df). Color t = ''red'' \<and> t \<in> set df"
    by (simp add: red_df_def where_Color_def)
  have blue: "\<forall>t \<in> set (blue_df df). Color t = ''blue'' \<and> t \<in> set df"
    by (simp add: blue_df_def where_Color_def)
  have "list_all (\<lambda>t. Color t \<in> set color_options) df \<longrightarrow>
      length (red_df df) + length (blue_df df) + length (where_Color ''default'' df) = length df"
  proof
    assume "list_all (\<lambda>t. Color t \<in> set color_options) df"
    from other_is_default [OF this] count
    show "length (red_df df) + length (blue_df df) + length (where_Color ''default'' df)
        = length df"
      by simp
  qed
  with count red blue show ?thesis by blast
qed

theorem color_subsets_witness:
  "trade_input fresh_session ui_four_trades = Inr four_trades_state
   \<and> red_df (sort_values_by_Trade (trades four_trades_state)) = [trade_1_red, trade_4_red]
   \<and> blue_df (sort_values_by_Trade (trades four_trades_state)) = [trade_2_blue]
   \<and> where_Color ''default'' (sort_values_by_Trade (trades four_trades_state)) = [trade_3_default]
   \<and> Color trade_1_red = ''red'' \<and> Color trade_4_red = ''red'' \<and> Color trade_2_blue = ''blue''
   \<and> list_all (\<lambda>t. Color t \<in> set color_options) (sort_values_by_Trade (trades four_trades_state))
   \<and> length (red_df (sort_values_by_Trade (trades four_trades_state)))
       + length (blue_df (sort_values_by_Trade (trades four_trades_state)))
       + length (where_Color ''default'' (sort_values_by_Trade (trades four_trades_state)))
     = length (sort_values_by_Trade (trades four_trades_state))
   \<and> length (sort_values_by_Trade (trades four_trades_state)) = 4"
proof -
  have r: "red_df (sort_values_by_Trade (trades four_trades_state)) = [trade_1_red, trade_4_red]"
    unfolding four_trades_sorted
    by (simp add: red_df_def where_Color_def trade_1_red_def trade_2_blue_def
        trade_3_default_def trade_4_red_def)
  have b: "blue_df (sort_values_by_Trade (trades four_trades_state)) = [trade_2_blue]"
    unfolding four_trades_sorted
    by (simp add: blue_df_def where_Color_def trade_1_red_def trade_2_blue_def
        trade_3_default_def trade_4_red_def)
  have d: "where_Color ''default'' (sort_values_by_Trade (trades four_trades_state)) =
      [trade_3_default]"
    unfolding four_trades_sorted
    by (simp add: where_Color_def trade_1_red_def trade_2_blue_def
        trade_3_default_def trade_4_red_def)
  have o: "list_all (\<lambda>t. Color t \<in> set color_options)
      (sort_values_by_Trade (trades four_trades_state))"
    unfolding four_trades_sorted
    by (simp add: color_options_def trade_1_red_def trade_2_blue_def
        trade_3_default_def trade_4_red_def)
  have c: "Color trade_1_red = ''red'' \<and> Color trade_4_red = ''red'' \<and> Color trade_2_blue = ''blue''"
    by (simp add: trade_1_red_def trade_2_blue_def trade_4_red_def)
  have l: "length (sort_values_by_Trade (trades four_trades_state)) = 4"
    unfolding four_trades_sorted by simp
  from color_subsets [of "sort_values_by_Trade (trades four_trades_state)"] o
  have "length (red_df (sort_values_by_Trade (trades four_trades_state)))
       + length (blue_df (sort_values_by_Trade (trades four_trades_state)))
       + length (where_Color ''default'' (sort_values_by_Trade (trades four_trades_state)))
     = length (sort_values_by_Trade (trades four_trades_state))"
    by blast
  with four_trades_built r b d o c l show ?thesis by blast
qed

text \<open>Claim C4 as it was stated fails on the page as it first shows: one trade tagged
  default, and the two subsets are empty.\<close>

theorem color_subsets_counterexample:
  "trade_input fresh_session no_edits = Inr one_default_state
   \<and> length (sort_values_by_Trade (trades one_default_state)) = 1
   \<and> length (red_df (sort_values_by_Trade (trades one_default_state)))
       + length (blue_df (sort_values_by_Trade (trades one_default_state))) = 0
   \<and> length (red_df (sort_values_by_Trade (trades one_default_state)))
       + length (blue_df (sort_values_by_Trade (trades one_default_state)))
     \<noteq> length (sort_values_by_Trade (trades one_default_state))"
  by (simp add: one_default_built one_default_state_def one_default_trade_def
      sort_values_by_Trade_def red_df_def blue_df_def where_Color_def)

subsection \<open>Rounding to a double\<close>

lemma f64_zero: "f64 0 = 0"
  by (simp add: f64_def)

lemma f64_minus: "f64 (- x) = - f64 x"
  by (simp add: f64_def Let_def sgn_minus)

lemma round_half_even_of_int: "round_half_even (of_int n) = n"
  by (simp add: round_half_even_def)

lemma round_half_even_cases: "round_half_even m = \<lfloor>m\<rfloor> \<or> round_half_even m = \<lfloor>m\<rfloor> + 1"
  by (simp add: round_half_even_def Let_def)

lemma round_half_even_range:
  assumes "of_int lo \<le> m" and "m < of_int hi"
  shows "lo \<le> round_half_even m \<and> round_half_even m \<le> hi"
proof -
  from assms have "lo \<le> \<lfloor>m\<rfloor>" "\<lfloor>m\<rfloor> < hi" by (simp_all add: le_floor_iff floor_less_iff)
  with round_half_even_cases [of m] show ?thesis by auto
qed

lemma ilog2_bounds:
  assumes "0 < a"
  shows "2 powi (ilog2 a) \<le> a" and "a < 2 powi (ilog2 a + 1)"
proof -
  have "2 powi (ilog2 a) \<le> a \<and> a < 2 powi (ilog2 a + 1)"
  proof (cases "a \<ge> 1")
    case True
    define n where "n = nat \<lfloor>a\<rfloor>"
    define L where "L = floorlog 2 n"
    from True have n: "n > 0" by (simp add: n_def)
    from floorlog_bounds [OF n, of 2] have b: "2 ^ (L - 1) \<le> n" "n < 2 ^ L"
      by (simp_all add: L_def)
    from n have L: "L > 0" by (simp add: L_def floorlog_def)
    have i: "ilog2 a = int L - 1" using True by (simp add: ilog2_def n_def L_def)
    have na: "rat_of_nat n \<le> a" "a < rat_of_nat n + 1"
      using True by (simp_all add: n_def of_nat_nat) linarith+
    have p1: "(2::rat) powi (int L - 1) = 2 ^ (L - 1)"
      using L by (simp add: power_int_def nat_diff_distrib')
    have p2: "(2::rat) powi (int L - 1 + 1) = 2 ^ L"
      by (simp add: power_int_def)
    have "(2::rat) ^ (L - 1) \<le> rat_of_nat n"
      using b(1) by (metis of_nat_le_iff of_nat_numeral of_nat_power)
    moreover have "rat_of_nat n + 1 \<le> 2 ^ L"
    proof -
      from b(2) have "n + 1 \<le> 2 ^ L" by simp
      then have "rat_of_nat (n + 1) \<le> rat_of_nat (2 ^ L)" by (simp only: of_nat_le_iff)
      then show ?thesis by simp
    qed
    ultimately show ?thesis using na by (simp only: i p1 p2) linarith
  next
    case False
    define b where "b = 1 / a"
    define n where "n = nat (\<lceil>b\<rceil> - 1)"
    define L where "L = floorlog 2 n"
    from False assms have b1: "b > 1" by (simp add: b_def)
    then have c: "\<lceil>b\<rceil> \<ge> 2" by (simp add: le_ceiling_iff)
    then have n: "n > 0" by (simp add: n_def)
    from floorlog_bounds [OF n, of 2] have bd: "2 ^ (L - 1) \<le> n" "n < 2 ^ L"
      by (simp_all add: L_def)
    from n have L: "L > 0" by (simp add: L_def floorlog_def)
    have i: "ilog2 a = - int L" using False by (simp add: ilog2_def n_def L_def b_def)
    have nb: "rat_of_nat n < b" "b \<le> rat_of_nat n + 1"
    proof -
      have "rat_of_nat n = of_int (\<lceil>b\<rceil> - 1)" using c by (simp add: n_def)
      then show "rat_of_nat n < b" "b \<le> rat_of_nat n + 1" by (simp_all) linarith+
    qed
    have lo: "(2::rat) ^ (L - 1) \<le> rat_of_nat n"
      using bd(1) by (metis of_nat_le_iff of_nat_numeral of_nat_power)
    have hi: "rat_of_nat n + 1 \<le> 2 ^ L"
    proof -
      from bd(2) have "n + 1 \<le> 2 ^ L" by simp
      then have "rat_of_nat (n + 1) \<le> rat_of_nat (2 ^ L)" by (simp only: of_nat_le_iff)
      then show ?thesis by simp
    qed
    from lo nb hi have bb: "(2::rat) ^ (L - 1) < b" "b \<le> 2 ^ L" by linarith+
    have a: "a = 1 / b" using assms by (simp add: b_def)
    have p1: "(2::rat) powi (- int L) = 1 / 2 ^ L"
      by (simp add: power_int_def field_simps)
    have p2: "(2::rat) powi (- int L + 1) = 1 / 2 ^ (L - 1)"
      using L by (cases L) (simp_all add: power_int_def field_simps nat_diff_distrib')
    have "1 / 2 ^ L \<le> 1 / b" using bb(2) b1 by (simp add: field_simps)
    moreover have "1 / b < 1 / 2 ^ (L - 1)"
      using bb(1) b1 by (intro divide_strict_left_mono) simp_all
    moreover have "(2::rat) powi (ilog2 a) = 1 / 2 ^ L" by (simp only: i p1)
    moreover have "(2::rat) powi (ilog2 a + 1) = 1 / 2 ^ (L - 1)" by (simp only: i p2)
    ultimately show ?thesis using a by simp
  qed
  then show "2 powi (ilog2 a) \<le> a" and "a < 2 powi (ilog2 a + 1)" by simp_all
qed

lemma powi_less_cancel: "(2::rat) powi m < 2 powi n \<Longrightarrow> m < n"
proof (rule ccontr)
  assume "(2::rat) powi m < 2 powi n" and "\<not> m < n"
  then have "n \<le> m" by simp
  then have "(2::rat) powi n \<le> 2 powi m" by (intro power_int_increasing) simp_all
  with \<open>(2::rat) powi m < 2 powi n\<close> show False by simp
qed

lemma ilog2_le:
  assumes "0 < a" and "a < 2 powi (e + 1)"
  shows "ilog2 a \<le> e"
proof -
  from ilog2_bounds(1) [OF assms(1)] assms(2) have "(2::rat) powi (ilog2 a) < 2 powi (e + 1)"
    by simp
  from powi_less_cancel [OF this] show ?thesis by simp
qed

lemma ilog2_eq:
  assumes "2 powi e \<le> a" and "a < 2 powi (e + 1)"
  shows "ilog2 a = e"
proof -
  have "(0::rat) < 2 powi e" by simp
  from this assms(1) have pos: "0 < a" by (rule less_le_trans)
  from ilog2_bounds(2) [OF pos] assms(1) have "(2::rat) powi e < 2 powi (ilog2 a + 1)"
    by simp
  from powi_less_cancel [OF this] ilog2_le [OF pos assms(2)] show ?thesis by simp
qed

lemma f64_of_multiple:
  assumes "y \<noteq> 0" and "\<bar>y\<bar> / 2 powi (max (ilog2 \<bar>y\<bar> - 52) (- 1074)) = of_int k"
  shows "f64 y = y"
proof -
  let ?q = "max (ilog2 \<bar>y\<bar> - 52) (- 1074)"
  have "(2::rat) powi ?q \<noteq> 0" by simp
  with assms(2) have "\<bar>y\<bar> = of_int k * 2 powi ?q" by (simp add: field_simps)
  then have "sgn y * of_int k * 2 powi ?q = sgn y * \<bar>y\<bar>" by simp
  also have "\<dots> = y" by (simp add: sgn_mult_abs)
  finally show ?thesis
    using assms by (simp add: f64_def Let_def round_half_even_of_int)
qed

lemma f64_idem: "f64 (f64 x) = f64 x"
proof (cases "x = 0")
  case True
  then show ?thesis by (simp add: f64_zero)
next
  case False
  define a where "a = \<bar>x\<bar>"
  define q where "q = max (ilog2 a - 52) (- 1074)"
  define m where "m = a / 2 powi q"
  define n where "n = round_half_even m"
  define y where "y = f64 x"
  from False have a: "0 < a" by (simp add: a_def)
  have y: "y = sgn x * of_int n * 2 powi q"
    using False by (simp add: y_def f64_def Let_def a_def q_def m_def n_def)
  have "a < 2 powi (ilog2 a + 1)" by (rule ilog2_bounds(2) [OF a])
  also have "\<dots> \<le> 2 powi (q + 53)" by (intro power_int_increasing) (simp_all add: q_def)
  finally have "a < 2 powi (q + 53)" .
  then have "a / 2 powi q < 2 powi (q + 53) / 2 powi q"
    by (intro divide_strict_right_mono) simp_all
  then have m53: "m < of_int (2 ^ 53)" by (simp add: m_def power_int_add)
  have m0: "of_int 0 \<le> m" using a by (simp add: m_def)
  from round_half_even_range [OF m0 m53] have n: "0 \<le> n" "n \<le> 2 ^ 53" by (simp_all add: n_def)
  show ?thesis
  proof (cases "n = 0")
    case True
    with y have "y = 0" by simp
    then show ?thesis by (simp add: y_def [symmetric] f64_zero)
  next
    case n0: False
    with n have npos: "0 < n" by simp
    have ay: "\<bar>y\<bar> = of_int n * 2 powi q"
      using False npos by (simp add: y abs_mult)
    from npos False have ynz: "y \<noteq> 0" by (simp add: y sgn_if)
    have ypos: "0 < \<bar>y\<bar>" using ynz by simp
    have "\<exists>k. \<bar>y\<bar> / 2 powi (max (ilog2 \<bar>y\<bar> - 52) (- 1074)) = of_int k"
    proof (cases "n = 2 ^ 53")
      case True
      then have "\<bar>y\<bar> = 2 powi (q + 53)" by (simp add: ay power_int_add)
      then have e: "2 powi (q + 52 + 1) \<le> \<bar>y\<bar>" "\<bar>y\<bar> < 2 powi (q + 52 + 1 + 1)"
        by (simp_all add: power_int_add)
      from ilog2_eq [OF e] have "ilog2 \<bar>y\<bar> = q + 53" by simp
      moreover have "- 1074 \<le> q" by (simp add: q_def)
      ultimately have "max (ilog2 \<bar>y\<bar> - 52) (- 1074) = q + 1" by simp
      moreover have "\<bar>y\<bar> / 2 powi (q + 1) = of_int (2 ^ 52)"
        using True by (simp add: ay power_int_add)
      ultimately show ?thesis by (intro exI [of _ "2 ^ 52"]) simp
    next
      case False
      with n have "n < 2 ^ 53" by simp
      then have "rat_of_int n < 2 ^ 53" by (metis of_int_less_iff of_int_numeral of_int_power)
      then have "\<bar>y\<bar> < 2 ^ 53 * 2 powi q" by (simp add: ay)
      then have "\<bar>y\<bar> < 2 powi (q + 52 + 1)" by (simp add: power_int_add)
      from ilog2_le [OF ypos this] have "ilog2 \<bar>y\<bar> - 52 \<le> q" by simp
      moreover have "- 1074 \<le> q" by (simp add: q_def)
      ultimately have le: "max (ilog2 \<bar>y\<bar> - 52) (- 1074) \<le> q" by simp
      define q' where "q' = max (ilog2 \<bar>y\<bar> - 52) (- 1074)"
      define d where "d = nat (q - q')"
      from le have q: "q = q' + int d" by (simp add: q'_def d_def)
      have "\<bar>y\<bar> / 2 powi q' = of_int n * 2 ^ d"
        by (simp add: ay q power_int_add)
      also have "\<dots> = of_int (n * 2 ^ d)" by simp
      finally show ?thesis unfolding q'_def by blast
    qed
    then obtain k where "\<bar>y\<bar> / 2 powi (max (ilog2 \<bar>y\<bar> - 52) (- 1074)) = of_int k" ..
    from f64_of_multiple [OF ynz this] show ?thesis by (simp add: y_def)
  qed
qed

subsection \<open>The injection step in doubles\<close>

lemma net_result_r_id: "net_result_r id t = net_result t"
  by (simp add: net_result_r_def net_result_def)

lemma fold_step_r_id: "fold_step_r id st t = fold_step st t"
  by (simp add: fold_step_r_def fold_step_def net_result_r_id Let_def)

lemma make_trade_r_id: "make_trade_r id i b s f c = make_trade i b s f c"
  by (simp add: make_trade_r_def make_trade_def Let_def)

lemma f64_net_result: "f64 (net_result_r f64 t) = net_result_r f64 t"
  by (simp add: net_result_r_def f64_idem)

text \<open>
  Claim C10, as the script computes it. In a step of the fold after the first, when the
  trade's buy price exceeds the previous portfolio value, the new portfolio value is
  \<open>(net_result - added_capital) + added_capital\<close> evaluated in doubles, where
  \<open>added_capital\<close> is the rounded difference of the buy price and the previous portfolio
  value. It is the trade's net result whenever the subtraction \<open>net_result - added_capital\<close>
  is exact, and always in exact arithmetic; otherwise the rounding of that subtraction
  stays in the result, which therefore can depend on the previous portfolio value.
\<close>

theorem injection_step:
  assumes "initialized st" and "Buy t > prev_portfolio st"
  shows "portfolio_value (fold_step_r f64 st t) =
      f64 (f64 (net_result_r f64 t - f64 (Buy t - prev_portfolio st))
           + f64 (Buy t - prev_portfolio st))
    \<and> (f64 (net_result_r f64 t - f64 (Buy t - prev_portfolio st)) =
          net_result_r f64 t - f64 (Buy t - prev_portfolio st) \<longrightarrow>
        portfolio_value (fold_step_r f64 st t) = net_result_r f64 t)
    \<and> total_added_capital (fold_step_r f64 st t) =
        f64 (total_added_capital st + f64 (Buy t - prev_portfolio st))
    \<and> portfolio_value (fold_step st t) = net_result t"
proof -
  let ?added = "f64 (Buy t - prev_portfolio st)"
  let ?net = "net_result_r f64 t"
  have "f64 (prev_portfolio st - Buy t) = f64 (- (Buy t - prev_portfolio st))" by simp
  also have "\<dots> = - ?added" by (rule f64_minus)
  finally have neg: "f64 (prev_portfolio st - Buy t) = - ?added" .
  have "portfolio_value (fold_step_r f64 st t) =
      f64 (f64 (f64 (prev_portfolio st - Buy t) + ?net) + ?added)"
    using assms by (simp add: fold_step_r_def Let_def)
  also have "f64 (prev_portfolio st - Buy t) + ?net = ?net - ?added" by (simp add: neg)
  finally have one: "portfolio_value (fold_step_r f64 st t) = f64 (f64 (?net - ?added) + ?added)" .
  have two: "portfolio_value (fold_step_r f64 st t) = ?net" if "f64 (?net - ?added) = ?net - ?added"
    using one that by (simp add: f64_net_result)
  have three: "total_added_capital (fold_step_r f64 st t) = f64 (total_added_capital st + ?added)"
    using assms by (simp add: fold_step_r_def Let_def)
  have four: "portfolio_value (fold_step st t) = net_result t"
    using assms by (simp add: fold_step_def Let_def)
  from one two three four show ?thesis by blast
qed

lemma seed_200: "fold_step_r f64 fold_init (last two_trades) =
    \<lparr>portfolio_value = 0, prev_portfolio = 0, total_added_capital = 0, initialized = True\<rparr>"
  by code_simp

lemma net_150: "net_result_r f64 (hd two_trades) = 50"
  by code_simp

theorem injection_step_witness:
  "initialized (fold_step_r f64 fold_init (last two_trades))
   \<and> Buy (hd two_trades) > prev_portfolio (fold_step_r f64 fold_init (last two_trades))
   \<and> f64 (Buy (hd two_trades) - prev_portfolio (fold_step_r f64 fold_init (last two_trades))) = 100
   \<and> net_result_r f64 (hd two_trades) = 50
   \<and> f64 (50 - 100) = 50 - 100
   \<and> portfolio_value
        (fold_step_r f64 (fold_step_r f64 fold_init (last two_trades)) (hd two_trades)) = 50"
proof -
  have a: "initialized (fold_step_r f64 fold_init (last two_trades))"
    by (simp add: seed_200)
  have b: "Buy (hd two_trades) > prev_portfolio (fold_step_r f64 fold_init (last two_trades))"
    unfolding seed_200 by (simp add: two_trades_def)
  have c: "f64 (Buy (hd two_trades) - prev_portfolio (fold_step_r f64 fold_init (last two_trades)))
      = 100"
    unfolding seed_200 by code_simp
  have d: "f64 (50 - 100) = 50 - 100" by code_simp
  from injection_step [OF a b] have
    "f64 (net_result_r f64 (hd two_trades)
          - f64 (Buy (hd two_trades)
                 - prev_portfolio (fold_step_r f64 fold_init (last two_trades)))) =
       net_result_r f64 (hd two_trades)
       - f64 (Buy (hd two_trades) - prev_portfolio (fold_step_r f64 fold_init (last two_trades)))
     \<longrightarrow> portfolio_value
          (fold_step_r f64 (fold_step_r f64 fold_init (last two_trades)) (hd two_trades)) =
        net_result_r f64 (hd two_trades)"
    by blast
  with c d have "portfolio_value
      (fold_step_r f64 (fold_step_r f64 fold_init (last two_trades)) (hd two_trades)) = 50"
    by (simp add: net_150)
  with a b c d show ?thesis by (simp add: net_150)
qed

lemma seed_731: "fold_step_r f64 fold_init first_trade_731 =
    \<lparr>portfolio_value = 8230328319019581 / 1125899906842624,
     prev_portfolio = 8230328319019581 / 1125899906842624,
     total_added_capital = 0, initialized = True\<rparr>"
  by code_simp

lemma seed_833: "fold_step_r f64 fold_init first_trade_833 =
    \<lparr>portfolio_value = 4689373111999529 / 562949953421312,
     prev_portfolio = 4689373111999529 / 562949953421312,
     total_added_capital = 0, initialized = True\<rparr>"
  by code_simp

lemma second_trade_fields:
  "Buy second_trade_20903 = 7354589297728553 / 35184372088832"
  "Sell second_trade_20903 = 2820379266640773 / 140737488355328"
  "Fee second_trade_20903 = 0"
  by code_simp+

lemma net_20903: "net_result_r f64 second_trade_20903 = - (831186810133545 / 4398046511104)"
  by code_simp

lemma step_731: "portfolio_value
     (fold_step_r f64 (fold_step_r f64 fold_init first_trade_731) second_trade_20903) =
    - (6649494481068361 / 35184372088832)"
  unfolding seed_731 by code_simp

lemma step_833: "portfolio_value
     (fold_step_r f64 (fold_step_r f64 fold_init first_trade_833) second_trade_20903) =
    - (831186810133545 / 4398046511104)"
  unfolding seed_833 by code_simp

text \<open>Claim C10 as it was stated fails in doubles. After a first trade bought and sold
  at 7.31, the trade bought at 209.03 and sold at 20.04 has net result -188.99 and leaves
  the portfolio at -188.99000000000004; after a first trade at 8.33 it leaves -188.99.\<close>

theorem injection_step_counterexample:
  "initialized (fold_step_r f64 fold_init first_trade_731)
   \<and> prev_portfolio (fold_step_r f64 fold_init first_trade_731) < Buy second_trade_20903
   \<and> net_result_r f64 second_trade_20903 = - (831186810133545 / 4398046511104)
   \<and> portfolio_value
        (fold_step_r f64 (fold_step_r f64 fold_init first_trade_731) second_trade_20903) =
       - (6649494481068361 / 35184372088832)
   \<and> portfolio_value
        (fold_step_r f64 (fold_step_r f64 fold_init first_trade_731) second_trade_20903) \<noteq>
       net_result_r f64 second_trade_20903
   \<and> initialized (fold_step_r f64 fold_init first_trade_833)
   \<and> prev_portfolio (fold_step_r f64 fold_init first_trade_833) < Buy second_trade_20903
   \<and> portfolio_value
        (fold_step_r f64 (fold_step_r f64 fold_init first_trade_731) second_trade_20903) \<noteq>
       portfolio_value
        (fold_step_r f64 (fold_step_r f64 fold_init first_trade_833) second_trade_20903)"
  unfolding step_731 step_833 net_20903
  by (simp add: seed_731 seed_833 second_trade_fields)

subsection \<open>Charts\<close>

lemma length_cumsum_from: "length (cumsum_from r acc xs) = length xs"
  by (induction xs arbitrary: acc) simp_all

lemma length_cumsum: "length (cumsum r xs) = length xs"
  by (cases xs) (simp_all add: cumsum_def length_cumsum_from)

lemma cumsum_from_nth:
  "k < length xs \<Longrightarrow>
   cumsum_from r acc xs ! k = foldl (\<lambda>a b. r (a + b)) acc (take (Suc k) xs)"
proof (induction xs arbitrary: acc k)
  case Nil
  then show ?case by simp
next
  case (Cons x xs)
  show ?case
  proof (cases k)
    case 0
    then show ?thesis by simp
  next
    case (Suc j)
    with Cons.prems have "j < length xs" by simp
    from Cons.IH [OF this, of "r (acc + x)"] Suc show ?thesis by simp
  qed
qed

lemma cumsum_nth: "k < length xs \<Longrightarrow> cumsum r xs ! k = sum_left r (take (Suc k) xs)"
proof (cases xs)
  case Nil
  assume "k < length xs"
  with Nil show ?thesis by simp
next
  case (Cons x xs')
  assume k: "k < length xs"
  show ?thesis
  proof (cases k)
    case 0
    with Cons show ?thesis by (simp add: cumsum_def sum_left_def)
  next
    case (Suc j)
    with k Cons have "j < length xs'" by simp
    from cumsum_from_nth [OF this, of r x] Suc Cons show ?thesis
      by (simp add: cumsum_def sum_left_def)
  qed
qed

lemma foldl_plus_sum_list: "foldl (+) (x::rat) xs = x + sum_list xs"
  by (induction xs arbitrary: x) (simp_all add: add.assoc)

lemma sum_left_id: "sum_left id xs = sum_list xs"
  by (cases xs) (simp_all add: sum_left_def foldl_plus_sum_list)

lemma buy_plus_profit_id: "buy_plus_profit id = (\<lambda>t. Buy t + Profit t)"
  by (rule ext) (simp add: buy_plus_profit_def)

lemma chart_nth:
  assumes "k < length df_subset"
  shows "chart_portfolio_value r df_subset ! k =
    r (sum_left r (map Buy (take (Suc k) (sort_values_by_Trade df_subset)))
       + sum_left r (map Profit (take (Suc k) (sort_values_by_Trade df_subset))))"
proof -
  let ?cd = "sort_values_by_Trade df_subset"
  have len: "length ?cd = length df_subset" by (simp add: sort_values_by_Trade_def)
  with assms have k: "k < length ?cd" by simp
  have "chart_portfolio_value r df_subset ! k =
      r (cumsum r (map Buy ?cd) ! k + cumsum r (map Profit ?cd) ! k)"
    using k by (simp add: chart_portfolio_value_def Let_def length_cumsum)
  also have "cumsum r (map Buy ?cd) ! k = sum_left r (take (Suc k) (map Buy ?cd))"
    using k by (simp add: cumsum_nth)
  also have "cumsum r (map Profit ?cd) ! k = sum_left r (take (Suc k) (map Profit ?cd))"
    using k by (simp add: cumsum_nth)
  finally show ?thesis by (simp add: take_map)
qed

text \<open>
  Claim C9, as the script computes it. For every subset of the table (the red rows, the
  blue rows, or all rows), the charted portfolio value at the k-th row, the rows taken in
  ascending index order, is the sum, in doubles, of two running sums over the first k
  rows, each taken from left to right in doubles: that of the buy prices and that of the
  profits. In exact arithmetic it is the sum over the first k rows of buy price plus
  profit.
\<close>

theorem chart_running_sum:
  assumes "k < length df_subset"
  shows "chart_portfolio_value f64 df_subset ! k =
      f64 (sum_left f64 (map Buy (take (Suc k) (sort_values_by_Trade df_subset)))
           + sum_left f64 (map Profit (take (Suc k) (sort_values_by_Trade df_subset))))
    \<and> chart_portfolio_value id df_subset ! k =
        sum_list (map (buy_plus_profit id) (take (Suc k) (sort_values_by_Trade df_subset)))
    \<and> length (chart_portfolio_value f64 df_subset) = length df_subset
    \<and> sorted (map Trade (sort_values_by_Trade df_subset))
    \<and> set (sort_values_by_Trade df_subset) = set df_subset
    \<and> length (sort_values_by_Trade df_subset) = length df_subset"
proof -
  let ?cd = "sort_values_by_Trade df_subset"
  have len: "length ?cd = length df_subset" by (simp add: sort_values_by_Trade_def)
  have one: "chart_portfolio_value f64 df_subset ! k =
      f64 (sum_left f64 (map Buy (take (Suc k) ?cd)) + sum_left f64 (map Profit (take (Suc k) ?cd)))"
    by (rule chart_nth [OF assms])
  have "chart_portfolio_value id df_subset ! k =
      sum_list (map Buy (take (Suc k) ?cd)) + sum_list (map Profit (take (Suc k) ?cd))"
    by (simp add: chart_nth [OF assms] sum_left_id)
  then have two: "chart_portfolio_value id df_subset ! k =
      sum_list (map (buy_plus_profit id) (take (Suc k) ?cd))"
    by (simp add: buy_plus_profit_id sum_list_addf)
  have l: "length (chart_portfolio_value f64 df_subset) = length df_subset"
    by (simp add: chart_portfolio_value_def Let_def length_cumsum len)
  have s: "sorted (map Trade ?cd)" by (simp add: sort_values_by_Trade_def)
  have e: "set ?cd = set df_subset" by (simp add: sort_values_by_Trade_def)
  from one two l s e len show ?thesis by simp
qed

lemma f64_small: "f64 100 = 100" "f64 50 = 50" "f64 150 = 150" "f64 20 = 20" "f64 70 = 70"
  "f64 220 = 220"
  by code_simp+

theorem chart_running_sum_witness:
  "(1::nat) < length (red_df (sort_values_by_Trade (trades four_trades_state)))
   \<and> red_df (sort_values_by_Trade (trades four_trades_state)) = [trade_1_red, trade_4_red]
   \<and> sum_left f64 [Buy trade_1_red, Buy trade_4_red] = 150
   \<and> sum_left f64 [Profit trade_1_red, Profit trade_4_red] = 70
   \<and> chart_portfolio_value f64 (red_df (sort_values_by_Trade (trades four_trades_state))) ! 1
       = 220"
proof -
  have r: "red_df (sort_values_by_Trade (trades four_trades_state)) = [trade_1_red, trade_4_red]"
    unfolding four_trades_sorted
    by (simp add: red_df_def where_Color_def trade_1_red_def trade_2_blue_def
        trade_3_default_def trade_4_red_def)
  have h: "(1::nat) < length (red_df (sort_values_by_Trade (trades four_trades_state)))"
    by (simp add: r)
  have s: "sort_values_by_Trade [trade_1_red, trade_4_red] = [trade_1_red, trade_4_red]"
    by (simp add: sort_values_by_Trade_def trade_1_red_def trade_4_red_def)
  have b: "sum_left f64 [Buy trade_1_red, Buy trade_4_red] = 150"
    by (simp add: sum_left_def trade_1_red_def trade_4_red_def f64_small)
  have p: "sum_left f64 [Profit trade_1_red, Profit trade_4_red] = 70"
    by (simp add: sum_left_def trade_1_red_def trade_4_red_def f64_small)
  from chart_running_sum [OF h] h r b p show ?thesis
    by (simp add: s f64_small)
qed

lemma three_red_rows_values:
  "red_row_1 = \<lparr>Trade = 1, Buy = 1525154569120645 / 4398046511104,
     Sell = 1624110615620485 / 17592186044416, Fee = 0,
     Profit = - (4476507660862095 / 17592186044416),
     ROI = - (5163513075566175 / 70368744177664),
     Total_Return = 1624110615620485 / 17592186044416, Color = ''red''\<rparr>"
  "red_row_2 = \<lparr>Trade = 2, Buy = 8436684661320581 / 17592186044416,
     Sell = 5304747779833201 / 35184372088832, Fee = 0,
     Profit = - (1446077692850995 / 4398046511104),
     ROI = - (4824580996646145 / 70368744177664),
     Total_Return = 5304747779833201 / 35184372088832, Color = ''red''\<rparr>"
  "red_row_3 = \<lparr>Trade = 3, Buy = 842819643155415 / 2199023255552,
     Sell = 8786241398023127 / 17592186044416, Fee = 0,
     Profit = 2043684252779807 / 17592186044416,
     ROI = 4265784961577597 / 140737488355328,
     Total_Return = 8786241398023127 / 17592186044416, Color = ''red''\<rparr>"
  by code_simp+

lemma three_red_subset:
  "red_df three_red_rows = three_red_rows"
  "sort_values_by_Trade three_red_rows = three_red_rows"
  by (simp_all add: three_red_rows_def red_df_def where_Color_def sort_values_by_Trade_def
      three_red_rows_values)

lemma chart_three_red_1:
  "chart_portfolio_value f64 three_red_rows ! 1 = 1069121126384271 / 4398046511104"
proof -
  have "chart_portfolio_value f64 three_red_rows ! 1 =
      f64 (f64 (1525154569120645 / 4398046511104 + 8436684661320581 / 17592186044416)
           + f64 (- (4476507660862095 / 17592186044416) + - (1446077692850995 / 4398046511104)))"
    by (simp add: chart_portfolio_value_def Let_def three_red_subset cumsum_def)
       (simp add: three_red_rows_def three_red_rows_values cumsum_def)
  also have "\<dots> = 1069121126384271 / 4398046511104" by code_simp
  finally show ?thesis .
qed

text \<open>Claim C9 as it was stated fails in doubles: for the three red rows the chart shows
  243.08999999999992 at the second row, and the sum of buy price plus profit over the
  first two rows is 243.09000000000003, taken exactly or from left to right in doubles.\<close>

theorem chart_running_sum_counterexample:
  "red_df three_red_rows = three_red_rows
   \<and> sort_values_by_Trade (red_df three_red_rows) = three_red_rows
   \<and> chart_portfolio_value f64 (red_df three_red_rows) ! 1 = 1069121126384271 / 4398046511104
   \<and> sum_list (map (buy_plus_profit id) (take 2 (sort_values_by_Trade (red_df three_red_rows))))
       = 2138242252768543 / 8796093022208
   \<and> sum_left f64 (map (buy_plus_profit f64) (take 2 (sort_values_by_Trade (red_df three_red_rows))))
       = 2138242252768543 / 8796093022208
   \<and> chart_portfolio_value f64 (red_df three_red_rows) ! 1 \<noteq>
       sum_list (map (buy_plus_profit id) (take 2 (sort_values_by_Trade (red_df three_red_rows))))
   \<and> chart_portfolio_value f64 (red_df three_red_rows) ! 1 \<noteq>
       sum_left f64 (map (buy_plus_profit f64) (take 2 (sort_values_by_Trade (red_df three_red_rows))))"
proof -
  have t: "take 2 three_red_rows = [red_row_1, red_row_2]"
    by (simp add: three_red_rows_def)
  have e: "sum_list (map (buy_plus_profit id) [red_row_1, red_row_2]) =
      2138242252768543 / 8796093022208"
    by (simp add: buy_plus_profit_def three_red_rows_values)
  have "sum_left f64 (map (buy_plus_profit f64) [red_row_1, red_row_2]) =
      f64 (f64 (1525154569120645 / 4398046511104 + - (4476507660862095 / 17592186044416))
           + f64 (8436684661320581 / 17592186044416 + - (1446077692850995 / 4398046511104)))"
    by (simp add: buy_plus_profit_def sum_left_def three_red_rows_values)
  also have "\<dots> = 2138242252768543 / 8796093022208" by code_simp
  finally have f: "sum_left f64 (map (buy_plus_profit f64) [red_row_1, red_row_2]) =
      2138242252768543 / 8796093022208" .
  show ?thesis
    unfolding three_red_subset t chart_three_red_1 e f by simp
qed

subsection \<open>Loading a snapshot\<close>

lemma entry_without_prev:
  assumes "find_prev prev_trades i = Inr None"
  shows "\<exists>t. trade_entry prev_trades u i = Inr t"
  using assms
  by (simp add: trade_entry_def err_bind_def prefill_def prefill_index_def number_input_def)

lemma trade_loop_last_fails:
  assumes "trade_entry prev_trades u j = Inl e"
    and "\<forall>i \<in> set is. \<exists>t. trade_entry prev_trades u i = Inr t"
  shows "trade_loop prev_trades u (is @ [j]) st = Inl e"
  using assms(2)
proof (induction "is" arbitrary: st)
  case Nil
  with assms(1) show ?case by simp
next
  case (Cons i "is")
  then obtain t where "trade_entry prev_trades u i = Inr t" by auto
  with Cons show ?case by simp
qed

lemma missing_fields_entry_1:
  "trade_entry [JObj [(''Trade'', JInt 1)]] u 1 = Inl KeyError"
  by (simp add: trade_entry_def err_bind_def subscript_def py_eq_int_def prefill_def)

lemma missing_fields_entry_other:
  assumes "i \<noteq> 1"
  shows "\<exists>t. trade_entry [JObj [(''Trade'', JInt 1)]] u i = Inr t"
proof (rule entry_without_prev)
  from assms show "find_prev [JObj [(''Trade'', JInt 1)]] i = Inr None"
    by (simp add: subscript_def py_eq_int_def)
qed

lemma missing_fields_input:
  "trade_input (ss\<lparr>loaded_trades := Some (JArr [JObj [(''Trade'', JInt 1)]])\<rparr>) u = Inl KeyError"
proof -
  obtain n where n: "number_input_int 1 50 1 (ui_num_trades u) = Inr n" and n1: "1 \<le> n"
    by (cases "ui_num_trades u") (simp_all add: number_input_int_def)
  from n1 have "1 < n + 1" by simp
  then have "[1 ..< n + 1] = 1 # [Suc 1 ..< n + 1]" by (rule upt_conv_Cons)
  then have ix: "trade_indices n = rev [Suc 1 ..< n + 1] @ [1]" by (simp add: trade_indices_def)
  have "trade_loop [JObj [(''Trade'', JInt 1)]] u (rev [Suc 1 ..< n + 1] @ [1]) loop_init =
      Inl KeyError"
    by (rule trade_loop_last_fails [OF missing_fields_entry_1])
       (auto intro: missing_fields_entry_other)
  with n ix show ?thesis
    by (simp add: trade_input_def py_len_def py_iter_def err_bind_def)
qed

text \<open>
  Claim C7, at the file \<^verbatim>\<open>[{"Trade": 1}]\<close>. In every session the load stores the file and
  reports success, and the next run of the input loop raises KeyError whatever the
  widgets hold; a file that is not JSON is reported as an error and leaves the session
  as it was.
\<close>

theorem load_missing_fields_breaks_runs:
  "load_trades snapshot_missing_fields ss =
     (ss\<lparr>loaded_trades := Some (JArr [JObj [(''Trade'', JInt 1)]])\<rparr>, Success)
   \<and> trade_input (fst (load_trades snapshot_missing_fields ss)) u = Inl KeyError
   \<and> load_trades None ss = (ss, Error JSONDecodeError)"
  by (simp add: load_trades_def snapshot_missing_fields_def json_load_def missing_fields_input)

subsection \<open>Saving and loading again\<close>

lemma held_one_default:
  "held_widgets True one_default_state =
     \<lparr>ui_num_trades = Some 1,
      ui_buy = (\<lambda>i. if i = 1 then Some 0 else None),
      ui_sell = (\<lambda>i. if i = 1 then Some 0 else None),
      ui_fee = (\<lambda>i. if i = 1 then Some 0 else None),
      ui_color = (\<lambda>i. if i = 1 then Some 0 else None)\<rparr>"
  by (auto simp: held_widgets_def shown_trade_def one_default_state_def one_default_trade_def
      option_position_def color_options_def fun_eq_iff)

lemma load_one_red:
  "load_trades (json_dumps (trades one_red_state)) fresh_session =
     (\<lparr>loaded_trades = Some (JArr (map trade_json (trades one_red_state))),
       session_trades = None\<rparr>, Success)"
  by (simp add: load_trades_def json_dumps_def json_load_def fresh_session_def)

lemma one_red_json:
  "map trade_json (trades one_red_state) =
     [JObj [(''Trade'', JInt 1), (''Buy'', JFloat 1), (''Sell'', JFloat 2), (''Fee (%)'', JFloat 0),
            (''Profit'', JFloat 1), (''ROI (%)'', JFloat 100), (''Total Return'', JFloat 2),
            (''Color'', JStr ''red'')]]"
  by (simp add: one_red_state_def trade_json_def)

text \<open>
  Claim C6, at a snapshot of one red trade bought at 1 and sold at 2, uploaded to the page
  as it first shows. The load succeeds, but in the next run the widgets of trade 1 hold
  the values they had, so the input loop builds the default trade again and not the trade
  of the file; widgets that are new in the run take the values of the file.
\<close>

theorem reload_keeps_held_values:
  "trade_input fresh_session ui_one_red = Inr one_red_state
   \<and> trade_input fresh_session no_edits = Inr one_default_state
   \<and> snd (load_trades (json_dumps (trades one_red_state)) fresh_session) = Success
   \<and> loaded_trades (fst (load_trades (json_dumps (trades one_red_state)) fresh_session)) =
       Some (JArr (map trade_json (trades one_red_state)))
   \<and> trade_input (fst (load_trades (json_dumps (trades one_red_state)) fresh_session))
        (held_widgets True one_default_state) = Inr one_default_state
   \<and> trades one_default_state \<noteq> trades one_red_state
   \<and> trade_input (fst (load_trades (json_dumps (trades one_red_state)) fresh_session))
        no_edits = Inr one_red_state"
proof -
  have held: "trade_input
      \<lparr>loaded_trades = Some (JArr (map trade_json (trades one_red_state))), session_trades = None\<rparr>
      (held_widgets True one_default_state) = Inr one_default_state"
    unfolding held_one_default one_red_json
    by (simp add: trade_input_def py_len_def py_iter_def one_default_state_def
        one_default_trade_def err_bind_def number_input_int_def trade_indices_def loop_init_def
        trade_entry_def prefill_def prefill_index_def subscript_def py_eq_int_def
        number_input_def selectbox_def color_options_def make_trade_def record_trade_def)
  have new: "trade_input
      \<lparr>loaded_trades = Some (JArr (map trade_json (trades one_red_state))), session_trades = None\<rparr>
      no_edits = Inr one_red_state"
    unfolding one_red_json
    by (simp add: trade_input_def py_len_def py_iter_def one_red_state_def no_edits_def
        err_bind_def number_input_int_def trade_indices_def loop_init_def
        trade_entry_def prefill_def prefill_index_def subscript_def py_eq_int_def
        number_input_def selectbox_def color_options_def make_trade_def record_trade_def)
  have ne: "trades one_default_state \<noteq> trades one_red_state"
    by (simp add: one_default_state_def one_default_trade_def one_red_state_def)
  show ?thesis
    by (simp add: one_red_built one_default_built load_one_red held new ne)
qed

end
